theory Spec2Isabelle
  imports Complex_Main "HOL-Library.Word"
begin

section \<open>The inworld client: transport core and deployment operations\<close>

text \<open>
  A shallow embedding of the Go package \<open>inworld\<close> (\<open>client.go\<close>, \<open>deployments.go\<close>,
  \<open>scenes.go\<close>, \<open>common_knowledge.go\<close>, \<open>simple_api.go\<close> and the characters file).
  Go strings and byte slices are \<open>string\<close> (lists of bytes). A Go \<open>error\<close> is a value of
  the datatype \<open>error\<close>; the nil error is \<open>None\<close> of \<open>error option\<close>. A Go function
  returning \<open>(T, error)\<close> returns a pair here, since Go returns both components.
  The network is explicit: every operation takes the state of the outside world and the
  trace of the I/O performed so far, and returns them updated.
\<close>

subsection \<open>Values and errors\<close>

type_synonym bytes = string

text \<open>
  A value of Go's \<open>interface{}\<close> as \<open>encoding/json\<close> produces it: nil, bool, float64,
  string, slice or map. A float64 is represented by the real number it denotes.
\<close>

datatype any =
    AnyNil
  | AnyBool bool
  | AnyFloat64 real
  | AnyString string
  | AnySlice "any list"
  | AnyMap "(string \<times> any) list"

text \<open>\<open>type Error struct\<close> of \<open>client.go\<close>; \<open>codes.Code\<close> is a \<open>uint32\<close>.\<close>

record Error =
  Code :: "32 word"
  Message :: string
  Details :: "any list"

definition codes_OK :: "32 word" where
  "codes_OK = 0"

definition Error_zero :: Error where
  "Error_zero = \<lparr>Code = 0, Message = [], Details = []\<rparr>"

text \<open>
  Error values. \<open>Foreign\<close> is an error made outside the package (by the HTTP transport,
  the body reader, the JSON decoder or the request constructor), identified by its message.
  \<open>New\<close> and \<open>Errorf\<close> are the constructors of \<open>github.com/pkg/errors\<close>, \<open>StdNew\<close> is
  \<open>errors.New\<close> of the standard library, \<open>Remote\<close> is a \<open>*Error\<close> used as an error,
  \<open>WithStack\<close> and \<open>Wrap\<close> are the wrappers of \<open>pkg/errors\<close> around a non-nil error, and
  \<open>Join e1 e2\<close> is \<open>errors.Join(e1, e2)\<close> of the standard library on two non-nil errors.
\<close>

datatype error =
    Foreign string
  | New string
  | StdNew string
  | Errorf string
  | Remote Error
  | WithStack error
  | Wrap error string
  | Join error error

text \<open>\<open>errors.WithStack\<close> and \<open>errors.Wrap\<close> return nil on a nil error.\<close>

definition errors_WithStack :: "error option \<Rightarrow> error option" where
  "errors_WithStack err = (case err of None \<Rightarrow> None | Some e \<Rightarrow> Some (WithStack e))"

definition errors_Wrap :: "error option \<Rightarrow> string \<Rightarrow> error option" where
  "errors_Wrap err msg = (case err of None \<Rightarrow> None | Some e \<Rightarrow> Some (Wrap e msg))"

text \<open>The method \<open>Error()\<close>: the message an error prints.\<close>

fun Error_string :: "error \<Rightarrow> string" where
  "Error_string (Foreign m) = m"
| "Error_string (New m) = m"
| "Error_string (StdNew m) = m"
| "Error_string (Errorf m) = m"
| "Error_string (Remote e) = Message e"
| "Error_string (WithStack e) = Error_string e"
| "Error_string (Wrap e m) = m @ '': '' @ Error_string e"
| "Error_string (Join e1 e2) = Error_string e1 @ [CHR 0x0A] @ Error_string e2"

text \<open>
  \<open>carries e t\<close>: the error \<open>t\<close> is \<open>e\<close> itself or is reached from \<open>e\<close> by unwrapping, the
  tree that \<open>errors.Is\<close> and \<open>errors.As\<close> walk (\<open>Unwrap() error\<close> of the wrappers,
  \<open>Unwrap() []error\<close> of a joined error).
\<close>

fun carries :: "error \<Rightarrow> error \<Rightarrow> bool" where
  "carries (WithStack e) t = (WithStack e = t \<or> carries e t)"
| "carries (Wrap e m) t = (Wrap e m = t \<or> carries e t)"
| "carries (Join e1 e2) t = (Join e1 e2 = t \<or> carries e1 t \<or> carries e2 t)"
| "carries e t = (e = t)"

text \<open>\<open>func combine(err1, err2 error) error\<close>\<close>

definition combine :: "error option \<Rightarrow> error option \<Rightarrow> error option" where
  "combine err1 err2 =
     (case err1 of
        None \<Rightarrow> err2
      | Some e1 \<Rightarrow>
          (case err2 of
             None \<Rightarrow> err1
           | Some e2 \<Rightarrow> errors_WithStack (Some (Join e1 e2))))"

text \<open>
  \<open>func limit(v []byte, limit int) []byte\<close>; the slice \<open>v[:limit]\<close> is \<open>take\<close>. The
  package calls it with the limit 200 only.
\<close>

definition limit :: "bytes \<Rightarrow> int \<Rightarrow> bytes" where
  "limit v n = (if int (length v) > n then take (nat n) v else v)"

subsection \<open>Formatting\<close>

text \<open>The decimal digits of a number, as the verb \<open>%d\<close> and \<open>strconv.FormatInt\<close> print it.\<close>

fun itoa_nat :: "nat \<Rightarrow> string" where
  "itoa_nat n =
     (if n < 10 then [''0123456789'' ! n]
      else itoa_nat (n div 10) @ [''0123456789'' ! (n mod 10)])"

declare itoa_nat.simps [simp del]

definition itoa :: "int \<Rightarrow> string" where
  "itoa i = (if i < 0 then CHR ''-'' # itoa_nat (nat (- i)) else itoa_nat (nat i))"

text \<open>
  The arguments and verbs of the two format strings of \<open>sendRequest\<close>: \<open>%d\<close> of an int,
  \<open>%s\<close> of a byte slice, and \<open>%T\<close>, which prints the name of the argument's type.
  \<open>Sprintf\<close> replaces each verb by its argument in turn and copies every other byte;
  both format strings have as many verbs as arguments.
\<close>

datatype fmt_arg = ArgInt int | ArgBytes bytes | ArgType string

fun fmt_verb :: "char \<Rightarrow> fmt_arg \<Rightarrow> string" where
  "fmt_verb v (ArgInt i) = itoa i"
| "fmt_verb v (ArgBytes b) = b"
| "fmt_verb v (ArgType t) = t"

fun Sprintf :: "string \<Rightarrow> fmt_arg list \<Rightarrow> string" where
  "Sprintf (c # v # fs) (a # as) =
     (if c = CHR ''%'' then fmt_verb v a @ Sprintf fs as
      else c # Sprintf (v # fs) (a # as))"
| "Sprintf fs as = fs"

subsection \<open>Requests, responses and the outside world\<close>

text \<open>
  \<open>url.URL\<close> with the fields the package reads or assigns, and \<open>url.Values\<close>.
  \<open>Values.Add\<close> appends to the values of a key.
\<close>

record URL =
  Scheme :: string
  Host :: string
  Path :: string
  RawQuery :: string

type_synonym Values = "string \<rightharpoonup> string list"

definition Values_Add :: "Values \<Rightarrow> string \<Rightarrow> string \<Rightarrow> Values" where
  "Values_Add q k x = q(k \<mapsto> (case q k of None \<Rightarrow> [] | Some xs \<Rightarrow> xs) @ [x])"

text \<open>
  \<open>http.Header\<close>. \<open>Header.Set\<close> replaces the values of a key by the one given; it
  stores under the canonical form of the key, and the three keys of this package are
  written in canonical form in the source.
\<close>

type_synonym Header = "string \<rightharpoonup> string list"

definition Header_Set :: "Header \<Rightarrow> string \<Rightarrow> string \<Rightarrow> Header" where
  "Header_Set h k x = h(k \<mapsto> [x])"

text \<open>A \<open>context.Context\<close>: nil, or a live context. Deadlines and cancellation are not modelled.\<close>

datatype Context = NilContext | Background

text \<open>The request structs of \<open>simple_api.go\<close> that \<open>SendText\<close> and \<open>SendTrigger\<close> take.\<close>

record Parameter =
  Name :: string
  Value :: string

record TriggerEvent =
  Trigger :: string
  Parameters :: "Parameter list"

record SendTriggerRequest =
  SessionID :: string
  SessionCharacter :: string
  TriggerEvent :: TriggerEvent
  EndUserID :: string

record SendTextRequest =
  SessionID :: string
  SessionCharacter :: string
  Text :: string

text \<open>
  The deployment handles of \<open>deployments.go\<close>. \<open>Typed\<close> is the anonymous struct
  \<open>struct { Type string `json:"@type"` }\<close> of the fields \<open>Metadata\<close> and \<open>Response\<close>.
\<close>

record Typed =
  Type :: string

record DeploymentResponse =
  Name :: string
  Metadata :: Typed
  Done :: bool

record CheckDeploymentStatusResponse =
  Name :: string
  Metadata :: Typed
  Done :: bool
  Response :: Typed

definition Typed_zero :: Typed where
  "Typed_zero = \<lparr>Type = []\<rparr>"

definition DeploymentResponse_zero :: DeploymentResponse where
  "DeploymentResponse_zero =
     \<lparr>DeploymentResponse.Name = [], DeploymentResponse.Metadata = Typed_zero,
      DeploymentResponse.Done = False\<rparr>"

definition CheckDeploymentStatusResponse_zero :: CheckDeploymentStatusResponse where
  "CheckDeploymentStatusResponse_zero =
     \<lparr>CheckDeploymentStatusResponse.Name = [],
      CheckDeploymentStatusResponse.Metadata = Typed_zero,
      CheckDeploymentStatusResponse.Done = False,
      CheckDeploymentStatusResponse.Response = Typed_zero\<rparr>"


text \<open>
  The values handed to \<open>newReader\<close> (a Go \<open>any\<close>) by the operations modelled here, and
  the deployment handles as fixtures.
\<close>

datatype payload =
    PSendTriggerRequest SendTriggerRequest
  | PSendTextRequest SendTextRequest
  | PDeploymentResponse DeploymentResponse
  | PCheckDeploymentStatusResponse CheckDeploymentStatusResponse

subsection \<open>JSON documents and the field tags of the structs\<close>

text \<open>
  A JSON document. An object keeps its members in the order they are written, a number
  keeps its literal.
\<close>

datatype json =
    JNull
  | JBool bool
  | JNumber string
  | JString string
  | JArray "json list"
  | JObject "(string \<times> json) list"




definition Marshal_SendTextRequest :: "SendTextRequest \<Rightarrow> json" where
  "Marshal_SendTextRequest r = JObject [(''text'', JString (Text r))]"

definition Marshal_Typed :: "Typed \<Rightarrow> json" where
  "Marshal_Typed m = JObject [(''@type'', JString (Type m))]"

definition Marshal_DeploymentResponse :: "DeploymentResponse \<Rightarrow> json" where
  "Marshal_DeploymentResponse d =
     JObject [(''name'', JString (DeploymentResponse.Name d)),
              (''metadata'', Marshal_Typed (DeploymentResponse.Metadata d)),
              (''done'', JBool (DeploymentResponse.Done d))]"

definition Marshal_CheckDeploymentStatusResponse :: "CheckDeploymentStatusResponse \<Rightarrow> json" where
  "Marshal_CheckDeploymentStatusResponse d =
     JObject [(''name'', JString (CheckDeploymentStatusResponse.Name d)),
              (''metadata'', Marshal_Typed (CheckDeploymentStatusResponse.Metadata d)),
              (''done'', JBool (CheckDeploymentStatusResponse.Done d)),
              (''response'', Marshal_Typed (Response d))]"


text \<open>
  What \<open>encoding/json\<close> does when it decodes a document into a struct. A \<open>null\<close>
  leaves the target as it is. The members of an object are taken in order; a member
  whose key matches the tag name of a field is decoded into that field, and any other
  member is skipped. A value of the wrong kind leaves the target as it is and is an
  error, an \<open>*UnmarshalTypeError\<close>; decoding goes on, and the first such error is the
  one returned. That error is made by the library from the value and the place of the
  field, and is a parameter \<open>te\<close> here: \<open>te path j\<close> is the error for the value \<open>j\<close> at
  the field reached from the target by the tag names \<open>path\<close> (the empty path is the
  target itself).

  A key matches a tag name when the two are equal under Unicode simple case folding.
  The tag names of these structs are ASCII, and the only letters outside ASCII that fold
  to an ASCII letter are the long s (U+017F, the bytes C5 BF), which folds to \<open>s\<close>, and
  the Kelvin sign (U+212A, the bytes E2 84 AA), which folds to \<open>k\<close>. So a key matches
  a tag name written in lower case exactly when \<open>fold_key\<close> of the key is the tag name.
\<close>

definition lower :: "char \<Rightarrow> char" where
  "lower ch =
     (case map_of (zip ''ABCDEFGHIJKLMNOPQRSTUVWXYZ'' ''abcdefghijklmnopqrstuvwxyz'') ch of
        None \<Rightarrow> ch
      | Some l \<Rightarrow> l)"

fun fold_key :: "string \<Rightarrow> string" where
  "fold_key (a # b # c # k) =
     (if a = CHR 0xE2 \<and> b = CHR 0x84 \<and> c = CHR 0xAA then CHR ''k'' # fold_key k
      else if a = CHR 0xC5 \<and> b = CHR 0xBF then CHR ''s'' # fold_key (c # k)
      else lower a # fold_key (b # c # k))"
| "fold_key [a, b] =
     (if a = CHR 0xC5 \<and> b = CHR 0xBF then ''s'' else [lower a, lower b])"
| "fold_key k = map lower k"

declare fold_key.simps [simp del]

fun Unmarshal_string :: "(json \<Rightarrow> error) \<Rightarrow> json \<Rightarrow> string \<Rightarrow> string \<times> error option" where
  "Unmarshal_string te (JString t) x = (t, None)"
| "Unmarshal_string te JNull x = (x, None)"
| "Unmarshal_string te j x = (x, Some (te j))"

fun Unmarshal_bool :: "(json \<Rightarrow> error) \<Rightarrow> json \<Rightarrow> bool \<Rightarrow> bool \<times> error option" where
  "Unmarshal_bool te (JBool t) x = (t, None)"
| "Unmarshal_bool te JNull x = (x, None)"
| "Unmarshal_bool te j x = (x, Some (te j))"

fun Unmarshal_members ::
  "(string \<Rightarrow> json \<Rightarrow> 'a \<Rightarrow> 'a \<times> error option) \<Rightarrow> (string \<times> json) list \<Rightarrow> 'a
     \<Rightarrow> 'a \<times> error option" where
  "Unmarshal_members f [] x = (x, None)"
| "Unmarshal_members f ((k, j) # kvs) x =
     (case f (fold_key k) j x of
        (x1, e1) \<Rightarrow>
          (case Unmarshal_members f kvs x1 of
             (x2, e2) \<Rightarrow> (x2, (case e1 of None \<Rightarrow> e2 | Some e \<Rightarrow> Some e))))"

fun Unmarshal_struct ::
  "(string \<Rightarrow> json \<Rightarrow> 'a \<Rightarrow> 'a \<times> error option) \<Rightarrow> (json \<Rightarrow> error) \<Rightarrow> json \<Rightarrow> 'a
     \<Rightarrow> 'a \<times> error option" where
  "Unmarshal_struct f te JNull x = (x, None)"
| "Unmarshal_struct f te (JObject kvs) x = Unmarshal_members f kvs x"
| "Unmarshal_struct f te j x = (x, Some (te j))"

definition member_Typed ::
  "(string list \<Rightarrow> json \<Rightarrow> error) \<Rightarrow> string list \<Rightarrow> string \<Rightarrow> json \<Rightarrow> Typed
     \<Rightarrow> Typed \<times> error option" where
  "member_Typed te path k j m =
     (if k = ''@type'' then
        (case Unmarshal_string (te (path @ [''@type''])) j (Type m) of
           (x, e) \<Rightarrow> (m\<lparr>Type := x\<rparr>, e))
      else (m, None))"

definition Unmarshal_Typed ::
  "(string list \<Rightarrow> json \<Rightarrow> error) \<Rightarrow> string list \<Rightarrow> json \<Rightarrow> Typed
     \<Rightarrow> Typed \<times> error option" where
  "Unmarshal_Typed te path = Unmarshal_struct (member_Typed te path) (te path)"

definition member_DeploymentResponse ::
  "(string list \<Rightarrow> json \<Rightarrow> error) \<Rightarrow> string \<Rightarrow> json \<Rightarrow> DeploymentResponse
     \<Rightarrow> DeploymentResponse \<times> error option" where
  "member_DeploymentResponse te k j d =
     (if k = ''name'' then
        (case Unmarshal_string (te [''name'']) j (DeploymentResponse.Name d) of
           (x, e) \<Rightarrow> (d\<lparr>DeploymentResponse.Name := x\<rparr>, e))
      else if k = ''metadata'' then
        (case Unmarshal_Typed te [''metadata''] j (DeploymentResponse.Metadata d) of
           (x, e) \<Rightarrow> (d\<lparr>DeploymentResponse.Metadata := x\<rparr>, e))
      else if k = ''done'' then
        (case Unmarshal_bool (te [''done'']) j (DeploymentResponse.Done d) of
           (x, e) \<Rightarrow> (d\<lparr>DeploymentResponse.Done := x\<rparr>, e))
      else (d, None))"

definition Unmarshal_DeploymentResponse ::
  "(string list \<Rightarrow> json \<Rightarrow> error) \<Rightarrow> json \<Rightarrow> DeploymentResponse
     \<Rightarrow> DeploymentResponse \<times> error option" where
  "Unmarshal_DeploymentResponse te = Unmarshal_struct (member_DeploymentResponse te) (te [])"

definition member_CheckDeploymentStatusResponse ::
  "(string list \<Rightarrow> json \<Rightarrow> error) \<Rightarrow> string \<Rightarrow> json \<Rightarrow> CheckDeploymentStatusResponse
     \<Rightarrow> CheckDeploymentStatusResponse \<times> error option" where
  "member_CheckDeploymentStatusResponse te k j d =
     (if k = ''name'' then
        (case Unmarshal_string (te [''name'']) j (CheckDeploymentStatusResponse.Name d) of
           (x, e) \<Rightarrow> (d\<lparr>CheckDeploymentStatusResponse.Name := x\<rparr>, e))
      else if k = ''metadata'' then
        (case Unmarshal_Typed te [''metadata''] j (CheckDeploymentStatusResponse.Metadata d) of
           (x, e) \<Rightarrow> (d\<lparr>CheckDeploymentStatusResponse.Metadata := x\<rparr>, e))
      else if k = ''done'' then
        (case Unmarshal_bool (te [''done'']) j (CheckDeploymentStatusResponse.Done d) of
           (x, e) \<Rightarrow> (d\<lparr>CheckDeploymentStatusResponse.Done := x\<rparr>, e))
      else if k = ''response'' then
        (case Unmarshal_Typed te [''response''] j (Response d) of
           (x, e) \<Rightarrow> (d\<lparr>Response := x\<rparr>, e))
      else (d, None))"

definition Unmarshal_CheckDeploymentStatusResponse ::
  "(string list \<Rightarrow> json \<Rightarrow> error) \<Rightarrow> json \<Rightarrow> CheckDeploymentStatusResponse
     \<Rightarrow> CheckDeploymentStatusResponse \<times> error option" where
  "Unmarshal_CheckDeploymentStatusResponse te =
     Unmarshal_struct (member_CheckDeploymentStatusResponse te) (te [])"



text \<open>
  The document of a long-running operation as the remote service answers a poll: name,
  metadata and done, and the member \<open>response\<close>, which the service may leave out.
\<close>

definition operation_document :: "string \<Rightarrow> Typed \<Rightarrow> bool \<Rightarrow> Typed option \<Rightarrow> json" where
  "operation_document n m d resp =
     JObject ([(''name'', JString n), (''metadata'', Marshal_Typed m), (''done'', JBool d)] @
              (case resp of None \<Rightarrow> [] | Some t \<Rightarrow> [(''response'', Marshal_Typed t)]))"

text \<open>\<open>type jsonReader struct\<close>: the value and the buffer, nil until the first \<open>Read\<close>.\<close>

record jsonReader =
  v :: payload
  buf :: "bytes option"

definition newReader :: "payload \<Rightarrow> jsonReader" where
  "newReader x = \<lparr>v = x, buf = None\<rparr>"

datatype Body = NoBody | Reader jsonReader

record Request =
  Context :: Context
  Method :: string
  URL :: URL
  Header :: Header
  Body :: Body

text \<open>
  An \<open>http.Response\<close> as \<open>sendRequest\<close> uses it: the status code, what
  \<open>io.ReadAll(resp.Body)\<close> returns (the bytes read and the error), and what
  \<open>resp.Body.Close()\<close> returns.
\<close>

record Response =
  StatusCode :: int
  ReadAll :: "bytes \<times> error option"
  Close :: "error option"

text \<open>
  The functions of \<open>net/url\<close> and \<open>encoding/json\<close> that the package calls. They are not
  part of the repository and are parameters of the model: \<open>json_text\<close> is the text the
  encoder writes for a document, \<open>json_scan\<close> is the document the decoder reads from
  the start of a byte stream (or its syntax error), \<open>json_type_error ty path j\<close> is the
  \<open>*UnmarshalTypeError\<close> the decoder makes for the value \<open>j\<close> of the wrong kind at the
  field \<open>path\<close> of a target whose type \<open>%T\<close> prints as \<open>ty\<close>, and \<open>json_Decode_Error\<close> is
  the decoder of the error envelope, whose \<open>codes.Code\<close> has an unmarshaller of its own.
  A decoder takes the bytes and the value it decodes into, and returns that value as it
  left it, and its error.
\<close>

record lib =
  url_Parse :: "string \<Rightarrow> error + URL"
  url_JoinPath :: "URL \<Rightarrow> string list \<Rightarrow> URL"
  url_String :: "URL \<Rightarrow> string"
  url_Query :: "URL \<Rightarrow> Values"
  Values_Encode :: "Values \<Rightarrow> string"
  json_text :: "json \<Rightarrow> bytes"
  json_scan :: "bytes \<Rightarrow> error + json"
  json_type_error :: "string \<Rightarrow> string list \<Rightarrow> json \<Rightarrow> error"
  json_Decode_Error :: "bytes \<Rightarrow> Error \<Rightarrow> Error \<times> error option"


definition json_Decode ::
  "lib \<Rightarrow> (json \<Rightarrow> 'a \<Rightarrow> 'a \<times> error option) \<Rightarrow> bytes \<Rightarrow> 'a \<Rightarrow> 'a \<times> error option" where
  "json_Decode L unmarshal b x =
     (case json_scan L b of
        Inl e \<Rightarrow> (x, Some e)
      | Inr j \<Rightarrow> unmarshal j x)"






text \<open>
  The type parameter \<open>T\<close> of \<open>sendRequest\<close>: its zero value, its name as \<open>%T\<close> prints
  it, and its JSON decoder.
\<close>

record 'a target =
  zero :: 'a
  typeName :: string
  Decode :: "bytes \<Rightarrow> 'a \<Rightarrow> 'a \<times> error option"

definition T_DeploymentResponse :: "lib \<Rightarrow> DeploymentResponse target" where
  "T_DeploymentResponse L =
     \<lparr>zero = DeploymentResponse_zero, typeName = ''inworld.DeploymentResponse'',
      Decode = json_Decode L
        (Unmarshal_DeploymentResponse (json_type_error L ''inworld.DeploymentResponse''))\<rparr>"

definition T_CheckDeploymentStatusResponse :: "lib \<Rightarrow> CheckDeploymentStatusResponse target" where
  "T_CheckDeploymentStatusResponse L =
     \<lparr>zero = CheckDeploymentStatusResponse_zero,
      typeName = ''inworld.CheckDeploymentStatusResponse'',
      Decode = json_Decode L
        (Unmarshal_CheckDeploymentStatusResponse
           (json_type_error L ''inworld.CheckDeploymentStatusResponse''))\<rparr>"


text \<open>
  \<open>type Client struct\<close>. The field \<open>client\<close> is the \<open>http.Client\<close>: its method \<open>Do\<close>
  takes a request and the state of the outside world (the network and the remote
  service), and returns a response or an error, and the new state of the world.
\<close>

record 'w Client =
  simpleAPIKey :: string
  studioAPIKey :: string
  client :: "Request \<Rightarrow> 'w \<Rightarrow> (error + Response) \<times> 'w"

definition NewClient ::
  "string \<Rightarrow> string \<Rightarrow> (Request \<Rightarrow> 'w \<Rightarrow> (error + Response) \<times> 'w) \<Rightarrow> 'w Client" where
  "NewClient simpleKey studioKey cl =
     \<lparr>simpleAPIKey = simpleKey, studioAPIKey = studioKey, client = cl\<rparr>"

text \<open>
  The I/O a call performs, in order: a request handed to \<open>c.client.Do\<close> (a network
  call), the reading of a response body, the closing of a response body.
\<close>

datatype event = EvDo Request | EvReadAll | EvClose

record 'w io =
  world :: 'w
  trace :: "event list"

fun sent :: "event list \<Rightarrow> Request list" where
  "sent [] = []"
| "sent (EvDo r # es) = r # sent es"
| "sent (e # es) = sent es"

subsection \<open>The transport core (\<open>client.go\<close>)\<close>

definition http_StatusOK :: int where
  "http_StatusOK = 200"

definition http_StatusBadRequest :: int where
  "http_StatusBadRequest = 400"

text \<open>
  \<open>sendRequest\<close> from the reading of the body to its return statements, that is, what
  runs between the \<open>defer\<close> statement and the deferred function.
\<close>

definition sendRequest_read :: "lib \<Rightarrow> 'a target \<Rightarrow> Response \<Rightarrow> 'a \<times> error option" where
  "sendRequest_read L T resp =
     (case ReadAll resp of
        (b, Some e) \<Rightarrow> (zero T, errors_Wrap (Some e) ''reading http body'')
      | (b, None) \<Rightarrow>
          if StatusCode resp < http_StatusOK \<or> StatusCode resp \<ge> http_StatusBadRequest then
            (case json_Decode_Error L b Error_zero of
               (e, err) \<Rightarrow>
                 if err \<noteq> None \<or> Code e = codes_OK then
                   (zero T,
                    Some (Errorf (Sprintf ''request failed with status %d: %s''
                            [ArgInt (StatusCode resp), ArgBytes (limit b 200)])))
                 else (zero T, errors_WithStack (Some (Remote e))))
          else
            (case Decode T b (zero T) of
               (response, Some e) \<Rightarrow>
                 (response,
                  errors_Wrap (Some e)
                    (Sprintf ''json unmarshaling to %T: %s''
                       [ArgType (typeName T), ArgBytes (limit b 200)]))
             | (response, None) \<Rightarrow> (response, None)))"

text \<open>
  \<open>func sendRequest[T any](c Client, r *http.Request) (response T, err error)\<close>.
  The deferred function runs after the body of the function, closes the response body
  and replaces the returned error by \<open>combine(err, errors.WithStack(closeErr))\<close>.
\<close>

definition sendRequest ::
  "lib \<Rightarrow> 'a target \<Rightarrow> 'w Client \<Rightarrow> Request \<Rightarrow> 'w io \<Rightarrow> ('a \<times> error option) \<times> 'w io" where
  "sendRequest L T c r s =
     (case client c r (world s) of
        (Inl e, w) \<Rightarrow>
          ((zero T, errors_WithStack (Some e)), \<lparr>world = w, trace = trace s @ [EvDo r]\<rparr>)
      | (Inr resp, w) \<Rightarrow>
          (case sendRequest_read L T resp of
             (response, err) \<Rightarrow>
               ((response, combine err (errors_WithStack (Close resp))),
                \<lparr>world = w, trace = trace s @ [EvDo r, EvReadAll, EvClose]\<rparr>)))"

definition sendStudioAPIRequest ::
  "lib \<Rightarrow> 'a target \<Rightarrow> 'w Client \<Rightarrow> Request \<Rightarrow> 'w io \<Rightarrow> ('a \<times> error option) \<times> 'w io" where
  "sendStudioAPIRequest L T c r s =
     (let r1 = r\<lparr>Header := Header_Set (Header r) ''Authorization'' (''Basic '' @ studioAPIKey c)\<rparr>;
          r2 = r1\<lparr>Header := Header_Set (Header r1)
                 ''Grpc-Metadata-X-Authorization-Bearer-Type'' ''studio_api''\<rparr>
      in sendRequest L T c r2 s)"

definition sendSimpleAPIRequest ::
  "lib \<Rightarrow> 'a target \<Rightarrow> 'w Client \<Rightarrow> Request \<Rightarrow> string \<Rightarrow> 'w io \<Rightarrow> ('a \<times> error option) \<times> 'w io" where
  "sendSimpleAPIRequest L T c r sessionID s =
     (let r1 = r\<lparr>Header := Header_Set (Header r) ''Authorization'' (''Basic '' @ simpleAPIKey c)\<rparr>;
          r2 = (if sessionID \<noteq> [] then
                  r1\<lparr>Header := Header_Set (Header r1) ''Grpc-Metadata-Session-Id'' sessionID\<rparr>
                else r1)
      in sendRequest L T c r2 s)"

subsection \<open>Base paths and request construction\<close>

text \<open>
  \<open>api\<close> is \<open>url.Parse("https://api.inworld.ai")\<close>, evaluated once when the package is
  initialised; \<open>apiV1\<close> and \<open>apiStudioV1\<close> are the two base paths.
\<close>

definition api :: URL where
  "api = \<lparr>Scheme = ''https'', Host = ''api.inworld.ai'', Path = [], RawQuery = []\<rparr>"

definition apiV1 :: "lib \<Rightarrow> URL" where
  "apiV1 L = url_JoinPath L api [''v1'']"

definition apiStudioV1 :: "lib \<Rightarrow> URL" where
  "apiStudioV1 L = url_JoinPath L api [''studio/v1'']"

text \<open>
  \<open>http.NewRequestWithContext\<close> of \<open>net/http\<close>, for the method constants the package
  passes: it refuses a nil context and a URL that \<open>url.Parse\<close> refuses, and otherwise
  returns a request with the given method, URL and body and no header.
\<close>

definition NewRequestWithContext ::
  "lib \<Rightarrow> Context \<Rightarrow> string \<Rightarrow> string \<Rightarrow> Body \<Rightarrow> error + Request" where
  "NewRequestWithContext L ctx method url body =
     (if ctx = NilContext then Inl (Foreign ''net/http: nil Context'')
      else
        (case url_Parse L url of
           Inl e \<Rightarrow> Inl e
         | Inr u \<Rightarrow>
             Inr \<lparr>Context = ctx, Method = method, URL = u, Header = Map.empty, Body = body\<rparr>))"

definition http_MethodGet :: string where
  "http_MethodGet = ''GET''"

definition http_MethodPost :: string where
  "http_MethodPost = ''POST''"

subsection \<open>Deployments (\<open>scenes.go\<close>, the characters file, \<open>common_knowledge.go\<close>, \<open>deployments.go\<close>)\<close>

definition DeployScene ::
  "lib \<Rightarrow> 'w Client \<Rightarrow> Context \<Rightarrow> string \<Rightarrow> 'w io \<Rightarrow> (DeploymentResponse \<times> error option) \<times> 'w io" where
  "DeployScene L c ctx sceneID s =
     (if sceneID = [] then
        ((DeploymentResponse_zero, Some (New ''scene id is required'')), s)
      else
        (case NewRequestWithContext L ctx http_MethodPost
                (url_String L (url_JoinPath L (apiStudioV1 L) [sceneID @ '':deploy'']))
                NoBody of
           Inl err \<Rightarrow> ((DeploymentResponse_zero, errors_WithStack (Some err)), s)
         | Inr r \<Rightarrow> sendStudioAPIRequest L (T_DeploymentResponse L) c r s))"

definition DeployCharacter ::
  "lib \<Rightarrow> 'w Client \<Rightarrow> Context \<Rightarrow> string \<Rightarrow> 'w io \<Rightarrow> (DeploymentResponse \<times> error option) \<times> 'w io" where
  "DeployCharacter L c ctx characterName s =
     (if characterName = [] then
        ((DeploymentResponse_zero, Some (StdNew ''character name is required'')), s)
      else
        (case NewRequestWithContext L ctx http_MethodPost
                (url_String L (url_JoinPath L (apiStudioV1 L) [characterName @ '':deploy'']))
                NoBody of
           Inl err \<Rightarrow> ((DeploymentResponse_zero, errors_WithStack (Some err)), s)
         | Inr r \<Rightarrow> sendStudioAPIRequest L (T_DeploymentResponse L) c r s))"

definition DeployCommonKnowledge ::
  "lib \<Rightarrow> 'w Client \<Rightarrow> Context \<Rightarrow> string \<Rightarrow> 'w io \<Rightarrow> (DeploymentResponse \<times> error option) \<times> 'w io" where
  "DeployCommonKnowledge L c ctx commonKnowledgeID s =
     (if commonKnowledgeID = [] then
        ((DeploymentResponse_zero, Some (New ''common knowledge id is required'')), s)
      else
        (case NewRequestWithContext L ctx http_MethodPost
                (url_String L (url_JoinPath L (apiStudioV1 L) [commonKnowledgeID @ '':deploy'']))
                NoBody of
           Inl err \<Rightarrow> ((DeploymentResponse_zero, errors_WithStack (Some err)), s)
         | Inr r \<Rightarrow> sendStudioAPIRequest L (T_DeploymentResponse L) c r s))"

definition CheckDeploymentStatus ::
  "lib \<Rightarrow> 'w Client \<Rightarrow> Context \<Rightarrow> string \<Rightarrow> 'w io
     \<Rightarrow> (CheckDeploymentStatusResponse \<times> error option) \<times> 'w io" where
  "CheckDeploymentStatus L c ctx operationID s =
     (if operationID = [] then
        ((CheckDeploymentStatusResponse_zero, Some (New ''operation id cannot be empty'')), s)
      else
        (case NewRequestWithContext L ctx http_MethodGet
                (url_String L (url_JoinPath L (apiStudioV1 L) [operationID]))
                NoBody of
           Inl err \<Rightarrow> ((CheckDeploymentStatusResponse_zero, errors_WithStack (Some err)), s)
         | Inr r \<Rightarrow> sendStudioAPIRequest L (T_CheckDeploymentStatusResponse L) c r s))"

subsection \<open>Listing (\<open>scenes.go\<close> and the characters file)\<close>

text \<open>
  The request structs of the two list operations; \<open>PageSize\<close> is an \<open>int32\<close>, \<open>View\<close> a
  \<open>CharacterView\<close>, which is a string. The response structs are inert data and stay a
  type variable: each operation takes the \<open>target\<close> of its response type.
\<close>

record GetScenesRequest =
  WorkspaceID :: string
  PageSize :: "32 word"
  PageToken :: string
  Filter :: string

record GetCharactersRequest =
  WorkspaceID :: string
  PageSize :: "32 word"
  PageToken :: string
  View :: string
  Filter :: string

definition GetScenes ::
  "lib \<Rightarrow> 'a target \<Rightarrow> 'w Client \<Rightarrow> Context \<Rightarrow> GetScenesRequest \<Rightarrow> 'w io
     \<Rightarrow> ('a \<times> error option) \<times> 'w io" where
  "GetScenes L T c ctx req s =
     (if GetScenesRequest.WorkspaceID req = [] then
        ((zero T, Some (New ''workspace id is required'')), s)
      else
        (let url = url_JoinPath L (apiStudioV1 L)
                     [''workspaces'', GetScenesRequest.WorkspaceID req, ''scenes''];
             q = url_Query L url;
             q = (if GetScenesRequest.Filter req \<noteq> []
                  then Values_Add q ''filter'' (GetScenesRequest.Filter req) else q);
             q = (if 0 < sint (GetScenesRequest.PageSize req)
                  then Values_Add q ''pageSize'' (itoa (sint (GetScenesRequest.PageSize req)))
                  else q);
             q = (if GetScenesRequest.PageToken req \<noteq> []
                  then Values_Add q ''pageToken'' (GetScenesRequest.PageToken req) else q);
             url = url\<lparr>RawQuery := Values_Encode L q\<rparr>
         in
           (case NewRequestWithContext L ctx http_MethodGet (url_String L url) NoBody of
              Inl err \<Rightarrow> ((zero T, errors_WithStack (Some err)), s)
            | Inr r \<Rightarrow> sendStudioAPIRequest L T c r s)))"

definition GetCharacters ::
  "lib \<Rightarrow> 'a target \<Rightarrow> 'w Client \<Rightarrow> Context \<Rightarrow> GetCharactersRequest \<Rightarrow> 'w io
     \<Rightarrow> ('a \<times> error option) \<times> 'w io" where
  "GetCharacters L T c ctx req s =
     (let url = url_JoinPath L (apiStudioV1 L)
                  [''workspaces'', GetCharactersRequest.WorkspaceID req, ''characters''];
          q = url_Query L url;
          q = (if View req \<noteq> [] then Values_Add q ''view'' (View req) else q);
          q = (if 0 < sint (GetCharactersRequest.PageSize req)
               then Values_Add q ''pageSize'' (itoa (sint (GetCharactersRequest.PageSize req)))
               else q);
          q = (if GetCharactersRequest.PageToken req \<noteq> []
               then Values_Add q ''pageToken'' (GetCharactersRequest.PageToken req) else q);
          q = (if GetCharactersRequest.Filter req \<noteq> []
               then Values_Add q ''filter'' (GetCharactersRequest.Filter req) else q);
          url = url\<lparr>RawQuery := Values_Encode L q\<rparr>
      in
        (case NewRequestWithContext L ctx http_MethodGet (url_String L url) NoBody of
           Inl err \<Rightarrow> ((zero T, errors_WithStack (Some err)), s)
         | Inr r \<Rightarrow> sendStudioAPIRequest L T c r s))"

subsection \<open>The session API (\<open>simple_api.go\<close>)\<close>

text \<open>The loop of \<open>SendTrigger\<close> over \<open>req.TriggerEvent.Parameters\<close>, with its two returns.\<close>

fun check_Parameters :: "Parameter list \<Rightarrow> error option" where
  "check_Parameters [] = None"
| "check_Parameters (p # ps) =
     (if Parameter.Name p = [] then Some (New ''parameter name is required'')
      else if Value p = [] then Some (New ''parameter value is required'')
      else check_Parameters ps)"

definition SendText ::
  "lib \<Rightarrow> 'a target \<Rightarrow> 'w Client \<Rightarrow> Context \<Rightarrow> SendTextRequest \<Rightarrow> 'w io
     \<Rightarrow> ('a \<times> error option) \<times> 'w io" where
  "SendText L T c ctx req s =
     (if SendTextRequest.SessionID req = [] then
        ((zero T, Some (New ''session id is required'')), s)
      else if SendTextRequest.SessionCharacter req = [] then
        ((zero T, Some (New ''session character is required'')), s)
      else if Text req = [] then
        ((zero T, Some (New ''text is required'')), s)
      else
        (case NewRequestWithContext L ctx http_MethodPost
                (url_String L (url_JoinPath L (apiV1 L)
                   [SendTextRequest.SessionCharacter req @ '':sendText'']))
                (Reader (newReader (PSendTextRequest req))) of
           Inl err \<Rightarrow> ((zero T, errors_Wrap (Some err) ''creating request''), s)
         | Inr r \<Rightarrow> sendSimpleAPIRequest L T c r (SendTextRequest.SessionID req) s))"

definition SendTrigger ::
  "lib \<Rightarrow> 'a target \<Rightarrow> 'w Client \<Rightarrow> Context \<Rightarrow> SendTriggerRequest \<Rightarrow> 'w io
     \<Rightarrow> ('a \<times> error option) \<times> 'w io" where
  "SendTrigger L T c ctx req s =
     (if SendTriggerRequest.SessionID req = [] then
        ((zero T, Some (New ''session id is required'')), s)
      else if SendTriggerRequest.SessionCharacter req = [] then
        ((zero T, Some (New ''session character is required'')), s)
      else if Trigger (TriggerEvent req) = [] then
        ((zero T, Some (New ''trigger is required'')), s)
      else
        (case check_Parameters (Parameters (TriggerEvent req)) of
           Some e \<Rightarrow> ((zero T, Some e), s)
         | None \<Rightarrow>
             (case NewRequestWithContext L ctx http_MethodPost
                     (url_String L (url_JoinPath L (apiV1 L)
                        [SendTriggerRequest.SessionCharacter req @ '':sendTrigger'']))
                     (Reader (newReader (PSendTriggerRequest req))) of
                Inl err \<Rightarrow> ((zero T, errors_Wrap (Some err) ''creating request''), s)
              | Inr r \<Rightarrow> sendSimpleAPIRequest L T c r (SendTriggerRequest.SessionID req) s)))"

subsection \<open>An example environment\<close>

text \<open>
  A library instance and a scripted transport, for evaluating the operations on concrete
  inputs. The URL functions handle the plain URLs of the examples; the JSON functions
  are tables of the documents of the examples, with the text Go writes for them.
\<close>

definition example_Parse :: "string \<Rightarrow> error + URL" where
  "example_Parse x =
     (let rest = drop 3 (dropWhile (\<lambda>ch. ch \<noteq> CHR '':'') x);
          pq = dropWhile (\<lambda>ch. ch \<noteq> CHR ''/'') rest
      in Inr \<lparr>Scheme = takeWhile (\<lambda>ch. ch \<noteq> CHR '':'') x,
              Host = takeWhile (\<lambda>ch. ch \<noteq> CHR ''/'') rest,
              Path = takeWhile (\<lambda>ch. ch \<noteq> CHR ''?'') pq,
              RawQuery = drop 1 (dropWhile (\<lambda>ch. ch \<noteq> CHR ''?'') pq)\<rparr>)"

definition example_JoinPath :: "URL \<Rightarrow> string list \<Rightarrow> URL" where
  "example_JoinPath u elems =
     u\<lparr>Path := Path u @ concat (map (\<lambda>e. CHR ''/'' # e) (filter (\<lambda>e. e \<noteq> []) elems))\<rparr>"

definition example_String :: "URL \<Rightarrow> string" where
  "example_String u =
     Scheme u @ ''://'' @ Host u @ Path u @
     (if RawQuery u = [] then [] else CHR ''?'' # RawQuery u)"

definition example_Encode :: "Values \<Rightarrow> string" where
  "example_Encode q =
     (case concat (map (\<lambda>k. case q k of None \<Rightarrow> [] | Some xs \<Rightarrow> map (\<lambda>x. k @ ''='' @ x) xs)
                    [''filter'', ''pageSize'', ''pageToken'', ''view'']) of
        [] \<Rightarrow> []
      | p # ps \<Rightarrow> p @ concat (map (\<lambda>x. CHR ''&'' # x) ps))"

definition handle_pending :: DeploymentResponse where
  "handle_pending =
     \<lparr>DeploymentResponse.Name = ''workspaces/w/scenes/s1/operations/op1'',
      DeploymentResponse.Metadata = \<lparr>Type = ''t''\<rparr>, DeploymentResponse.Done = False\<rparr>"

definition handle_done :: DeploymentResponse where
  "handle_done = handle_pending\<lparr>DeploymentResponse.Done := True\<rparr>"

definition handle_checked :: CheckDeploymentStatusResponse where
  "handle_checked =
     \<lparr>CheckDeploymentStatusResponse.Name = ''workspaces/w/scenes/s1/operations/op1'',
      CheckDeploymentStatusResponse.Metadata = \<lparr>Type = ''t''\<rparr>,
      CheckDeploymentStatusResponse.Done = True,
      CheckDeploymentStatusResponse.Response = \<lparr>Type = ''r''\<rparr>\<rparr>"

definition text_fixture :: SendTextRequest where
  "text_fixture =
     \<lparr>SendTextRequest.SessionID = ''s1'', SendTextRequest.SessionCharacter = ''c1'',
      Text = ''hi''\<rparr>"

definition body_pending :: bytes where
  \<open>body_pending =
     ''{"name":"workspaces/w/scenes/s1/operations/op1","metadata":{"@type":"t"},"done":false}''\<close>

definition body_done :: bytes where
  \<open>body_done =
     ''{"name":"workspaces/w/scenes/s1/operations/op1","metadata":{"@type":"t"},"done":true}''\<close>

definition body_checked :: bytes where
  \<open>body_checked =
     ''{"name":"workspaces/w/scenes/s1/operations/op1","metadata":{"@type":"t"},"done":true,"response":{"@type":"r"}}''\<close>

definition body_long :: bytes where
  "body_long = replicate 250 (CHR ''x'')"

definition body_text :: bytes where
  \<open>body_text = ''{"text":"hi"}''\<close>

definition body_envelope :: bytes where
  \<open>body_envelope = ''{"code":3,"message":"invalid argument","details":[]}''\<close>

definition example_documents :: "(bytes \<times> json) list" where
  "example_documents =
     [(body_pending, Marshal_DeploymentResponse handle_pending),
      (body_done, Marshal_DeploymentResponse handle_done),
      (body_checked, Marshal_CheckDeploymentStatusResponse handle_checked),
      (body_text, Marshal_SendTextRequest text_fixture)]"

definition example_text :: "json \<Rightarrow> bytes" where
  "example_text j =
     (case map_of (map (\<lambda>(b, d). (d, b)) example_documents) j of
        None \<Rightarrow> ''null''
      | Some b \<Rightarrow> b)"

definition example_scan :: "bytes \<Rightarrow> error + json" where
  "example_scan b =
     (case map_of example_documents (takeWhile (\<lambda>ch. ch \<noteq> CHR 0x0A) b) of
        None \<Rightarrow> Inl (Foreign ''invalid character'')
      | Some j \<Rightarrow> Inr j)"

definition example_Decode_Error :: "bytes \<Rightarrow> Error \<Rightarrow> Error \<times> error option" where
  "example_Decode_Error b e =
     (if b = body_envelope
      then (e\<lparr>Code := 3, Message := ''invalid argument'', Details := []\<rparr>, None)
      else if b = ''{}'' then (e, None)
      else (e, Some (Foreign ''invalid character'')))"

definition example_lib :: lib where
  "example_lib =
     \<lparr>url_Parse = example_Parse, url_JoinPath = example_JoinPath,
      url_String = example_String, url_Query = (\<lambda>u. Map.empty),
      Values_Encode = example_Encode, json_text = example_text,
      json_scan = example_scan,
      json_type_error = (\<lambda>ty path j. Foreign (''json: cannot unmarshal into '' @ ty)),
      json_Decode_Error = example_Decode_Error\<rparr>"

text \<open>
  A transport that answers the \<open>n\<close>-th request with the \<open>n\<close>-th entry of a script; the
  state of the world is the number of requests answered so far.
\<close>

definition scripted :: "(error + Response) list \<Rightarrow> Request \<Rightarrow> nat \<Rightarrow> (error + Response) \<times> nat" where
  "scripted script r n =
     ((if n < length script then script ! n else Inl (Foreign ''connection refused'')), Suc n)"

definition example_Client :: "(error + Response) list \<Rightarrow> nat Client" where
  "example_Client script = NewClient ''c2ltcGxl'' ''c3R1ZGlv'' (scripted script)"

definition start :: "nat io" where
  "start = \<lparr>world = 0, trace = []\<rparr>"

definition answer :: "int \<Rightarrow> bytes \<Rightarrow> error + Response" where
  "answer code b = Inr \<lparr>StatusCode = code, ReadAll = (b, None), Close = None\<rparr>"

definition example_request :: Request where
  "example_request =
     \<lparr>Context = Background, Method = http_MethodGet, URL = api, Header = Map.empty,
      Body = NoBody\<rparr>"



text \<open>
  A service that reports an operation as done to the first poll and as not done to the
  second, and two polls of it, the second from the state the first left.
\<close>

definition flipping_service :: "nat Client" where
  "flipping_service = example_Client [answer 200 body_done, answer 200 body_pending]"

definition first_poll :: "(CheckDeploymentStatusResponse \<times> error option) \<times> nat io" where
  "first_poll =
     CheckDeploymentStatus example_lib flipping_service Background
       ''workspaces/w/scenes/s1/operations/op1'' start"

definition second_poll :: "(CheckDeploymentStatusResponse \<times> error option) \<times> nat io" where
  "second_poll =
     CheckDeploymentStatus example_lib flipping_service Background
       ''workspaces/w/scenes/s1/operations/op1'' (snd first_poll)"

text \<open>A service that keeps reporting the operation as done, and two polls of it.\<close>

definition steady_service :: "nat Client" where
  "steady_service = example_Client [answer 200 body_checked, answer 200 body_checked]"

definition steady_first_poll :: "(CheckDeploymentStatusResponse \<times> error option) \<times> nat io" where
  "steady_first_poll =
     CheckDeploymentStatus example_lib steady_service Background
       ''workspaces/w/scenes/s1/operations/op1'' start"

section \<open>Properties\<close>

subsection \<open>Auxiliary facts\<close>

lemma Sprintf_status:
  "Sprintf ''request failed with status %d: %s'' [ArgInt n, ArgBytes b] =
     ''request failed with status '' @ itoa n @ '': '' @ b"
  by simp

lemma Sprintf_unmarshal:
  "Sprintf ''json unmarshaling to %T: %s'' [ArgType t, ArgBytes b] =
     ''json unmarshaling to '' @ t @ '': '' @ b"
  by simp

lemma length_limit: "0 \<le> n \<Longrightarrow> length (limit b n) \<le> nat n"
  by (auto simp: limit_def)

lemma limit_take: "limit b 200 = take 200 b"
  by (simp add: limit_def)

lemma carries_refl: "carries e e"
  by (cases e) auto

lemma carries_trans: "carries a b \<Longrightarrow> carries b c \<Longrightarrow> carries a c"
  by (induction a) auto

lemma carries_WithStack: "carries e (WithStack t) \<Longrightarrow> carries e t"
  by (erule carries_trans) (simp add: carries_refl)

lemma combine_Some_left: "combine (Some e1) x = Some err \<Longrightarrow> carries err e1"
  by (auto simp: combine_def errors_WithStack_def carries_refl split: option.splits)

lemma combine_Some_right: "combine x (Some e2) = Some err \<Longrightarrow> carries err e2"
  by (auto simp: combine_def errors_WithStack_def carries_refl split: option.splits)

lemma combine_not_None: "combine (Some e1) x \<noteq> None"
  by (auto simp: combine_def errors_WithStack_def split: option.splits)

lemma combine_None_right: "combine x (errors_WithStack None) = x"
  by (simp add: combine_def errors_WithStack_def split: option.splits)

lemma sendRequest_Inr:
  "client c r (world s) = (Inr resp, w) \<Longrightarrow>
   sendRequest L T c r s =
     ((fst (sendRequest_read L T resp),
       combine (snd (sendRequest_read L T resp)) (errors_WithStack (Close resp))),
      \<lparr>world = w, trace = trace s @ [EvDo r, EvReadAll, EvClose]\<rparr>)"
  by (simp add: sendRequest_def split: prod.splits)

lemma sendRequest_Inl:
  "client c r (world s) = (Inl e, w) \<Longrightarrow>
   sendRequest L T c r s =
     ((zero T, Some (WithStack e)), \<lparr>world = w, trace = trace s @ [EvDo r]\<rparr>)"
  by (simp add: sendRequest_def errors_WithStack_def)

lemma sendRequest_read_failure:
  assumes "ReadAll resp = (b, None)"
      and "StatusCode resp < 200 \<or> 400 \<le> StatusCode resp"
      and "json_Decode_Error L b Error_zero = (e, derr)"
  shows "snd (sendRequest_read L T resp) =
           Some (if derr = None \<and> Code e \<noteq> codes_OK then WithStack (Remote e)
                 else Errorf (''request failed with status '' @ itoa (StatusCode resp) @ '': '' @ limit b 200))"
  using assms
  by (auto simp: sendRequest_read_def http_StatusOK_def http_StatusBadRequest_def
      errors_WithStack_def)

lemma sendRequest_read_unreadable:
  assumes "ReadAll resp = (b, Some e)"
  shows "sendRequest_read L T resp = (zero T, Some (Wrap e ''reading http body''))"
  using assms by (simp add: sendRequest_read_def errors_Wrap_def)

lemma sent_append: "sent (xs @ ys) = sent xs @ sent ys"
  by (induction xs rule: sent.induct) auto

lemma sendRequest_sent:
  "sent (trace (snd (sendRequest L T c r s))) = sent (trace s) @ [r]"
  by (cases "client c r (world s)")
     (auto simp: sendRequest_def sent_append split: sum.splits prod.splits)

lemma sendRequest_success_status:
  assumes "client c r (world s) = (Inr resp, w)"
      and "ReadAll resp = (b, None)"
      and "200 \<le> StatusCode resp \<and> StatusCode resp < 400"
  shows "fst (fst (sendRequest L T c r s)) = fst (Decode T b (zero T))"
  using assms
  by (auto simp: sendRequest_Inr sendRequest_read_def http_StatusOK_def
      http_StatusBadRequest_def split: prod.splits option.splits)

lemma sendRequest_success:
  assumes "client c r (world s) = (Inr resp, w)"
      and "ReadAll resp = (b, None)"
      and "200 \<le> StatusCode resp \<and> StatusCode resp < 400"
      and "Close resp = None"
      and "Decode T b (zero T) = (y, None)"
  shows "fst (sendRequest L T c r s) = (y, None)"
  using assms
  by (auto simp: sendRequest_Inr sendRequest_read_def http_StatusOK_def
      http_StatusBadRequest_def combine_None_right split: prod.splits option.splits)

lemma NewRequestWithContext_Inr:
  "ctx \<noteq> NilContext \<Longrightarrow> url_Parse L url = Inr u \<Longrightarrow>
   NewRequestWithContext L ctx m url b =
     Inr \<lparr>Context = ctx, Method = m, URL = u, Header = Map.empty, Body = b\<rparr>"
  by (simp add: NewRequestWithContext_def)

lemma NewRequestWithContext_Header:
  "NewRequestWithContext L ctx m url b = Inr r \<Longrightarrow> Header r = Map.empty"
  by (auto simp: NewRequestWithContext_def split: if_splits sum.splits)

lemma sendStudioAPIRequest_fresh:
  "sendStudioAPIRequest L T c
     \<lparr>Context = ctx, Method = m, URL = u, Header = Map.empty, Body = b\<rparr> s =
   sendRequest L T c
     \<lparr>Context = ctx, Method = m, URL = u,
      Header = [''Authorization'' \<mapsto> [''Basic '' @ studioAPIKey c],
                ''Grpc-Metadata-X-Authorization-Bearer-Type'' \<mapsto> [''studio_api'']],
      Body = b\<rparr> s"
  by (simp add: sendStudioAPIRequest_def Header_Set_def Let_def)

lemma example_do:
  "client (example_Client (x # xs)) r (world start) = (x, Suc 0)"
  by (simp add: example_Client_def NewClient_def scripted_def start_def)

subsection \<open>The transport core\<close>

text \<open>
  C5: in \<open>sendRequest\<close> the response body is always released. When \<open>c.client.Do\<close>
  returns no response there is no body, and the call performs the network call only.
  When it returns a response, the body is read and then closed exactly once, whatever
  the reading, the status and the decoding gave. When both the primary operation and the
  closing fail, the returned error is the single error
  \<open>WithStack (Join e1 (WithStack e2))\<close>: it carries both failures, and its message is the
  two messages on two lines. When only one of them fails, that failure is returned.
\<close>

theorem sendRequest_releases_body:
  "(case client c r (world s) of
      (Inl e, w) \<Rightarrow> trace (snd (sendRequest L T c r s)) = trace s @ [EvDo r]
    | (Inr resp, w) \<Rightarrow>
        trace (snd (sendRequest L T c r s)) = trace s @ [EvDo r, EvReadAll, EvClose] \<and>
        (case (snd (sendRequest_read L T resp), Close resp) of
           (Some e1, Some e2) \<Rightarrow>
             snd (fst (sendRequest L T c r s)) = Some (WithStack (Join e1 (WithStack e2))) \<and>
             carries (WithStack (Join e1 (WithStack e2))) e1 \<and>
             carries (WithStack (Join e1 (WithStack e2))) e2 \<and>
             Error_string (WithStack (Join e1 (WithStack e2))) =
               Error_string e1 @ [CHR 0x0A] @ Error_string e2
         | (Some e1, None) \<Rightarrow> snd (fst (sendRequest L T c r s)) = Some e1
         | (None, Some e2) \<Rightarrow> snd (fst (sendRequest L T c r s)) = Some (WithStack e2)
         | (None, None) \<Rightarrow> snd (fst (sendRequest L T c r s)) = None))"
proof (cases "client c r (world s)")
  case (Pair res w)
  show ?thesis
  proof (cases res)
    case (Inl e)
    with Pair show ?thesis
      by (simp add: sendRequest_Inl)
  next
    case (Inr resp)
    with Pair have do: "client c r (world s) = (Inr resp, w)"
      by simp
    show ?thesis
      unfolding do
      by (simp add: sendRequest_Inr [OF do] combine_def errors_WithStack_def carries_refl
          split: option.splits)
  qed
qed

theorem sendRequest_releases_body_witness:
  "trace (snd (sendRequest example_lib (T_DeploymentResponse example_lib)
                 (example_Client
                    [Inr \<lparr>StatusCode = 500, ReadAll = (''bad gateway'', None),
                          Close = Some (Foreign ''close failed'')\<rparr>])
                 example_request start)) =
     [EvDo example_request, EvReadAll, EvClose] \<and>
   snd (fst (sendRequest example_lib (T_DeploymentResponse example_lib)
               (example_Client
                  [Inr \<lparr>StatusCode = 500, ReadAll = (''bad gateway'', None),
                        Close = Some (Foreign ''close failed'')\<rparr>])
               example_request start)) =
     Some (WithStack (Join (Errorf ''request failed with status 500: bad gateway'')
                           (WithStack (Foreign ''close failed''))))"
proof -
  have i: "itoa 500 = ''500''"
    by code_simp
  have rd: "sendRequest_read example_lib (T_DeploymentResponse example_lib)
              \<lparr>StatusCode = 500, ReadAll = (''bad gateway'', None),
               Close = Some (Foreign ''close failed'')\<rparr> =
            (DeploymentResponse_zero, Some (Errorf ''request failed with status 500: bad gateway''))"
    by (simp add: sendRequest_read_def http_StatusOK_def http_StatusBadRequest_def
        example_lib_def example_Decode_Error_def body_envelope_def T_DeploymentResponse_def
        i limit_def)
  have t: "trace start = []"
    by (simp add: start_def)
  show ?thesis
    using sendRequest_releases_body
      [where c = "example_Client
             [Inr \<lparr>StatusCode = 500, ReadAll = (''bad gateway'', None),
                   Close = Some (Foreign ''close failed'')\<rparr>]"
         and r = example_request and s = start and L = example_lib
         and T = "T_DeploymentResponse example_lib"]
    by (simp add: example_do rd t)
qed

text \<open>
  C1: for a response with a status code outside \<open>[200, 400)\<close>, \<open>sendRequest\<close> returns
  an error. When the body was read: if it decodes without error as an \<open>Error\<close> whose
  code is not \<open>codes.OK\<close>, the returned error carries that \<open>Error\<close> unchanged (code,
  message and details), and is exactly \<open>WithStack\<close> of it when closing the body
  succeeds; if decoding fails or the code is \<open>codes.OK\<close>, the returned error carries the
  generic failure whose message holds the status code in decimal and the snippet
  \<open>limit b 200\<close>, which is the first 200 bytes of the body (the whole body when it has
  no more), so at most 200 bytes.
\<close>

theorem sendRequest_failure_status:
  assumes do: "client c r (world s) = (Inr resp, w)"
      and st: "StatusCode resp < 200 \<or> 400 \<le> StatusCode resp"
  shows "\<exists>err. snd (fst (sendRequest L T c r s)) = Some err \<and>
           (snd (ReadAll resp) = None \<longrightarrow>
              (let b = fst (ReadAll resp);
                   e = fst (json_Decode_Error L b Error_zero);
                   derr = snd (json_Decode_Error L b Error_zero);
                   generic = Errorf (''request failed with status '' @ itoa (StatusCode resp)
                                      @ '': '' @ take 200 b)
               in (if derr = None \<and> Code e \<noteq> codes_OK
                   then carries err (Remote e) \<and> (Close resp = None \<longrightarrow> err = WithStack (Remote e))
                   else carries err generic \<and> (Close resp = None \<longrightarrow> err = generic)) \<and>
                  limit b 200 = take 200 b \<and> length (take 200 b) \<le> 200))"
proof (cases "snd (ReadAll resp)")
  case (Some e)
  then have "ReadAll resp = (fst (ReadAll resp), Some e)"
    by (metis prod.collapse)
  then have "snd (sendRequest_read L T resp) = Some (Wrap e ''reading http body'')"
    by (simp add: sendRequest_read_unreadable)
  with do Some show ?thesis
    by (cases "combine (Some (Wrap e ''reading http body'')) (errors_WithStack (Close resp))")
       (simp_all add: sendRequest_Inr combine_not_None)
next
  case None
  define b where "b = fst (ReadAll resp)"
  define e where "e = fst (json_Decode_Error L b Error_zero)"
  define derr where "derr = snd (json_Decode_Error L b Error_zero)"
  define primary where
    "primary = (if derr = None \<and> Code e \<noteq> codes_OK then WithStack (Remote e)
                else Errorf (''request failed with status '' @ itoa (StatusCode resp) @ '': '' @ limit b 200))"
  have rd: "ReadAll resp = (b, None)"
    using None by (simp add: b_def prod_eq_iff)
  have dec: "json_Decode_Error L b Error_zero = (e, derr)"
    by (simp add: e_def derr_def)
  have prim: "snd (sendRequest_read L T resp) = Some primary"
    unfolding primary_def by (rule sendRequest_read_failure [OF rd st dec])
  obtain err where err: "combine (Some primary) (errors_WithStack (Close resp)) = Some err"
    using combine_not_None [of primary] by blast
  have ret: "snd (fst (sendRequest L T c r s)) = Some err"
    using do prim err by (simp add: sendRequest_Inr)
  have car: "carries err primary"
    using err by (rule combine_Some_left)
  have exact: "Close resp = None \<Longrightarrow> err = primary"
    using err by (simp add: combine_None_right)
  have len: "length (take 200 b) \<le> 200"
    by simp
  show ?thesis
  proof (cases "derr = None \<and> Code e \<noteq> codes_OK")
    case True
    then have "carries err (Remote e)"
      using car by (simp add: primary_def carries_WithStack)
    with True ret exact len show ?thesis
      unfolding Let_def b_def [symmetric] e_def [symmetric] derr_def [symmetric]
      by (auto simp: primary_def limit_take)
  next
    case False
    with ret car exact len show ?thesis
      unfolding Let_def b_def [symmetric] e_def [symmetric] derr_def [symmetric]
      by (auto simp: primary_def limit_take)
  qed
qed

theorem sendRequest_failure_status_witness:
  "snd (fst (sendRequest example_lib (T_DeploymentResponse example_lib)
               (example_Client [answer 400 body_envelope]) example_request start)) =
     Some (WithStack (Remote \<lparr>Code = 3, Message = ''invalid argument'', Details = []\<rparr>)) \<and>
   snd (fst (sendRequest example_lib (T_DeploymentResponse example_lib)
               (example_Client [answer 500 ''bad gateway'']) example_request start)) =
     Some (Errorf ''request failed with status 500: bad gateway'') \<and>
   length body_long = 250 \<and>
   snd (fst (sendRequest example_lib (T_DeploymentResponse example_lib)
               (example_Client [answer 500 body_long]) example_request start)) =
     Some (Errorf (''request failed with status 500: '' @ replicate 200 (CHR ''x'')))"
proof -
  have do1: "client (example_Client [answer 400 body_envelope]) example_request (world start) =
              (Inr \<lparr>StatusCode = 400, ReadAll = (body_envelope, None), Close = None\<rparr>, Suc 0)"
    by (simp add: example_Client_def NewClient_def scripted_def start_def answer_def)
  have do2: "client (example_Client [answer 500 ''bad gateway'']) example_request (world start) =
              (Inr \<lparr>StatusCode = 500, ReadAll = (''bad gateway'', None), Close = None\<rparr>, Suc 0)"
    by (simp add: example_Client_def NewClient_def scripted_def start_def answer_def)
  have do3: "client (example_Client [answer 500 body_long]) example_request (world start) =
              (Inr \<lparr>StatusCode = 500, ReadAll = (body_long, None), Close = None\<rparr>, Suc 0)"
    by (simp add: example_Client_def NewClient_def scripted_def start_def answer_def)
  have dec1: "json_Decode_Error example_lib body_envelope Error_zero =
               (\<lparr>Code = 3, Message = ''invalid argument'', Details = []\<rparr>, None)"
    by (simp add: example_lib_def example_Decode_Error_def Error_zero_def)
  have dec2: "json_Decode_Error example_lib ''bad gateway'' Error_zero =
               (Error_zero, Some (Foreign ''invalid character''))"
    by (simp add: example_lib_def example_Decode_Error_def body_envelope_def)
  have dec3: "snd (json_Decode_Error example_lib body_long Error_zero) =
                Some (Foreign ''invalid character'')"
    by code_simp
  have i: "itoa 500 = ''500''"
    by code_simp
  have l3: "take 200 body_long = replicate 200 (CHR ''x'')"
    by (simp add: body_long_def)
  have n3: "length body_long = 250"
    by (simp add: body_long_def)
  show ?thesis
    using sendRequest_failure_status [OF do1, of example_lib "T_DeploymentResponse example_lib"]
          sendRequest_failure_status [OF do2, of example_lib "T_DeploymentResponse example_lib"]
          sendRequest_failure_status [OF do3, of example_lib "T_DeploymentResponse example_lib"]
    by (auto simp: dec1 dec2 dec3 codes_OK_def i l3 n3 Let_def)
qed

text \<open>
  C6: for a response with status in \<open>[200, 400)\<close> whose body was read and cannot be
  decoded into the success type, \<open>sendRequest\<close> returns an error, never a nil error
  with a defaulted value. The error carries the decoder's error wrapped with the message
  \<open>json unmarshaling to T: snippet\<close>, where \<open>T\<close> is the name of the target type and the
  snippet is \<open>limit b 200\<close>, which is the first 200 bytes of the body (the whole body
  when it has no more), so at most 200 bytes; it is exactly that wrapped error when
  closing the body succeeds.
\<close>

theorem sendRequest_decode_error:
  assumes do: "client c r (world s) = (Inr resp, w)"
      and rd: "ReadAll resp = (b, None)"
      and st: "200 \<le> StatusCode resp \<and> StatusCode resp < 400"
      and dec: "Decode T b (zero T) = (x, Some e)"
  shows "\<exists>err. snd (fst (sendRequest L T c r s)) = Some err \<and>
           carries err (Wrap e (''json unmarshaling to '' @ typeName T @ '': '' @ take 200 b)) \<and>
           (Close resp = None \<longrightarrow>
              err = Wrap e (''json unmarshaling to '' @ typeName T @ '': '' @ take 200 b)) \<and>
           limit b 200 = take 200 b \<and> length (take 200 b) \<le> 200"
proof -
  define wr where "wr = Wrap e (''json unmarshaling to '' @ typeName T @ '': '' @ take 200 b)"
  have prim: "snd (sendRequest_read L T resp) = Some wr"
    using rd st dec
    by (simp add: sendRequest_read_def http_StatusOK_def http_StatusBadRequest_def
        errors_Wrap_def wr_def limit_take)
  obtain err where err: "combine (Some wr) (errors_WithStack (Close resp)) = Some err"
    using combine_not_None [of wr] by blast
  have 1: "snd (fst (sendRequest L T c r s)) = Some err"
    using do prim err by (simp add: sendRequest_Inr)
  have 2: "carries err wr"
    using err by (rule combine_Some_left)
  have 3: "Close resp = None \<longrightarrow> err = wr"
    using err by (auto simp: combine_None_right)
  have 4: "limit b 200 = take 200 b"
    by (rule limit_take)
  have 5: "length (take 200 b) \<le> 200"
    by simp
  from 1 2 3 4 5 show ?thesis
    unfolding wr_def by (intro exI [of _ err] conjI)
qed

theorem sendRequest_decode_error_witness:
  "snd (fst (sendRequest example_lib (T_DeploymentResponse example_lib)
               (example_Client [answer 200 ''not json'']) example_request start)) =
     Some (Wrap (Foreign ''invalid character'')
             ''json unmarshaling to inworld.DeploymentResponse: not json'') \<and>
   length body_long = 250 \<and>
   snd (fst (sendRequest example_lib (T_DeploymentResponse example_lib)
               (example_Client [answer 200 body_long]) example_request start)) =
     Some (Wrap (Foreign ''invalid character'')
             (''json unmarshaling to inworld.DeploymentResponse: '' @ replicate 200 (CHR ''x'')))"
proof -
  have do1: "client (example_Client [answer 200 ''not json'']) example_request (world start) =
              (Inr \<lparr>StatusCode = 200, ReadAll = (''not json'', None), Close = None\<rparr>, Suc 0)"
    by (simp add: example_do answer_def)
  have do2: "client (example_Client [answer 200 body_long]) example_request (world start) =
              (Inr \<lparr>StatusCode = 200, ReadAll = (body_long, None), Close = None\<rparr>, Suc 0)"
    by (simp add: example_do answer_def)
  have dec1: "Decode (T_DeploymentResponse example_lib) ''not json''
               (zero (T_DeploymentResponse example_lib)) =
             (DeploymentResponse_zero, Some (Foreign ''invalid character''))"
    by code_simp
  have dec2: "Decode (T_DeploymentResponse example_lib) body_long
               (zero (T_DeploymentResponse example_lib)) =
             (DeploymentResponse_zero, Some (Foreign ''invalid character''))"
    by code_simp
  have l3: "take 200 body_long = replicate 200 (CHR ''x'')"
    by (simp add: body_long_def)
  have n3: "length body_long = 250"
    by (simp add: body_long_def)
  show ?thesis
    using sendRequest_decode_error [OF do1 _ _ dec1, where L = example_lib]
          sendRequest_decode_error [OF do2 _ _ dec2, where L = example_lib]
    by (auto simp: l3 n3 T_DeploymentResponse_def)
qed

text \<open>
  C3: every request goes to the transport through \<open>sendStudioAPIRequest\<close> or
  \<open>sendSimpleAPIRequest\<close>, on a request made by \<open>NewRequestWithContext\<close>. A studio
  request is sent with the header \<open>Authorization\<close> equal to \<open>Basic\<close>, a space and the
  studio key, and with the marker header equal to \<open>studio_api\<close>. A simple request is
  sent with \<open>Authorization\<close> equal to \<open>Basic\<close>, a space and the simple key, without the
  marker header, and with the session header exactly when the session identifier is not
  empty, which then is its value.
\<close>

theorem authorization_headers:
  assumes "NewRequestWithContext L ctx method url body = Inr r"
  shows "(\<exists>r1. sent (trace (snd (sendStudioAPIRequest L T1 c r s))) = sent (trace s) @ [r1] \<and>
            Header r1 ''Authorization'' = Some [''Basic '' @ studioAPIKey c] \<and>
            Header r1 ''Grpc-Metadata-X-Authorization-Bearer-Type'' = Some [''studio_api'']) \<and>
         (\<exists>r2. sent (trace (snd (sendSimpleAPIRequest L T2 c r sessionID s))) = sent (trace s) @ [r2] \<and>
            Header r2 ''Authorization'' = Some [''Basic '' @ simpleAPIKey c] \<and>
            Header r2 ''Grpc-Metadata-X-Authorization-Bearer-Type'' = None \<and>
            Header r2 ''Grpc-Metadata-Session-Id'' =
              (if sessionID = [] then None else Some [sessionID]))"
proof -
  have h: "Header r = Map.empty"
    using assms by (rule NewRequestWithContext_Header)
  show ?thesis
    by (simp add: sendStudioAPIRequest_def sendSimpleAPIRequest_def sendRequest_sent
        Header_Set_def Let_def h)
qed

theorem authorization_headers_witness:
  "map (\<lambda>r. (Header r ''Authorization'', Header r ''Grpc-Metadata-X-Authorization-Bearer-Type''))
     (sent (trace (snd (sendStudioAPIRequest example_lib (T_DeploymentResponse example_lib)
                          (example_Client []) example_request start)))) =
     [(Some [''Basic c3R1ZGlv''], Some [''studio_api''])] \<and>
   map (\<lambda>r. (Header r ''Authorization'', Header r ''Grpc-Metadata-X-Authorization-Bearer-Type'',
              Header r ''Grpc-Metadata-Session-Id''))
     (sent (trace (snd (sendSimpleAPIRequest example_lib (T_DeploymentResponse example_lib)
                          (example_Client []) example_request ''s1'' start)))) =
     [(Some [''Basic c2ltcGxl''], None, Some [''s1''])] \<and>
   map (\<lambda>r. (Header r ''Authorization'', Header r ''Grpc-Metadata-X-Authorization-Bearer-Type'',
              Header r ''Grpc-Metadata-Session-Id''))
     (sent (trace (snd (sendSimpleAPIRequest example_lib (T_DeploymentResponse example_lib)
                          (example_Client []) example_request [] start)))) =
     [(Some [''Basic c2ltcGxl''], None, None)]"
proof -
  have new: "NewRequestWithContext example_lib Background http_MethodGet ''https://api.inworld.ai''
               NoBody = Inr example_request"
    by (simp add: NewRequestWithContext_def example_lib_def example_Parse_def example_request_def
        api_def)
  have keys: "studioAPIKey (example_Client []) = ''c3R1ZGlv''"
             "simpleAPIKey (example_Client []) = ''c2ltcGxl''"
    by (simp_all add: example_Client_def NewClient_def)
  show ?thesis
    using authorization_headers [OF new, where ?T1.0 = "T_DeploymentResponse example_lib"
            and c = "example_Client []" and s = start
            and ?T2.0 = "T_DeploymentResponse example_lib" and sessionID = "''s1''"]
          authorization_headers [OF new, where ?T1.0 = "T_DeploymentResponse example_lib"
            and c = "example_Client []" and s = start
            and ?T2.0 = "T_DeploymentResponse example_lib" and sessionID = "[]"]
    by (auto simp: keys start_def)
qed

subsection \<open>Deployments\<close>

lemma DeployScene_sends:
  assumes "sceneID \<noteq> []" and "ctx \<noteq> NilContext"
      and "url_Parse L (url_String L (url_JoinPath L (apiStudioV1 L) [sceneID @ '':deploy''])) = Inr u"
  shows "DeployScene L c ctx sceneID s =
           sendRequest L (T_DeploymentResponse L) c
             \<lparr>Context = ctx, Method = ''POST'', URL = u,
              Header = [''Authorization'' \<mapsto> [''Basic '' @ studioAPIKey c],
                        ''Grpc-Metadata-X-Authorization-Bearer-Type'' \<mapsto> [''studio_api'']],
              Body = NoBody\<rparr> s"
  using assms
  by (simp add: DeployScene_def NewRequestWithContext_Inr sendStudioAPIRequest_fresh
      http_MethodPost_def)

lemma DeployCharacter_eq:
  "characterName \<noteq> [] \<Longrightarrow>
   DeployCharacter L c ctx characterName s = DeployScene L c ctx characterName s"
  by (simp add: DeployCharacter_def DeployScene_def)

lemma DeployCommonKnowledge_eq:
  "commonKnowledgeID \<noteq> [] \<Longrightarrow>
   DeployCommonKnowledge L c ctx commonKnowledgeID s = DeployScene L c ctx commonKnowledgeID s"
  by (simp add: DeployCommonKnowledge_def DeployScene_def)

lemma CheckDeploymentStatus_sends:
  assumes "operationID \<noteq> []" and "ctx \<noteq> NilContext"
      and "url_Parse L (url_String L (url_JoinPath L (apiStudioV1 L) [operationID])) = Inr u"
  shows "CheckDeploymentStatus L c ctx operationID s =
           sendRequest L (T_CheckDeploymentStatusResponse L) c
             \<lparr>Context = ctx, Method = ''GET'', URL = u,
              Header = [''Authorization'' \<mapsto> [''Basic '' @ studioAPIKey c],
                        ''Grpc-Metadata-X-Authorization-Bearer-Type'' \<mapsto> [''studio_api'']],
              Body = NoBody\<rparr> s"
  using assms
  by (simp add: CheckDeploymentStatus_def NewRequestWithContext_Inr sendStudioAPIRequest_fresh
      http_MethodGet_def)

lemma fold_key_names:
  "fold_key ''name'' = ''name''" "fold_key ''metadata'' = ''metadata''"
  "fold_key ''done'' = ''done''" "fold_key ''response'' = ''response''"
  "fold_key ''@type'' = ''@type''" "fold_key ''text'' = ''text''"
  by (simp_all add: fold_key.simps lower_def)

lemma Unmarshal_Marshal_Typed:
  "Unmarshal_Typed te path (Marshal_Typed m) m0 = (m, None)"
  by (simp add: Unmarshal_Typed_def Marshal_Typed_def member_Typed_def fold_key_names)

lemma Unmarshal_Marshal_DeploymentResponse:
  "Unmarshal_DeploymentResponse te (Marshal_DeploymentResponse d) d0 = (d, None)"
  by (simp add: Unmarshal_DeploymentResponse_def Marshal_DeploymentResponse_def
      member_DeploymentResponse_def fold_key_names Unmarshal_Marshal_Typed)



lemma Unmarshal_operation_document:
  "Unmarshal_CheckDeploymentStatusResponse te (operation_document n m d resp) d0 =
     (\<lparr>CheckDeploymentStatusResponse.Name = n, CheckDeploymentStatusResponse.Metadata = m,
       CheckDeploymentStatusResponse.Done = d,
       CheckDeploymentStatusResponse.Response = (case resp of None \<Rightarrow> Response d0 | Some t \<Rightarrow> t)\<rparr>,
      None)"
  by (cases resp)
     (simp_all add: Unmarshal_CheckDeploymentStatusResponse_def operation_document_def
       member_CheckDeploymentStatusResponse_def fold_key_names Unmarshal_Marshal_Typed)

lemma operation_document_Marshal:
  "Marshal_DeploymentResponse h =
     operation_document (DeploymentResponse.Name h) (DeploymentResponse.Metadata h)
       (DeploymentResponse.Done h) None"
  "Marshal_CheckDeploymentStatusResponse k =
     operation_document (CheckDeploymentStatusResponse.Name k)
       (CheckDeploymentStatusResponse.Metadata k) (CheckDeploymentStatusResponse.Done k)
       (Some (Response k))"
  by (simp_all add: operation_document_def Marshal_DeploymentResponse_def
      Marshal_CheckDeploymentStatusResponse_def)

text \<open>
  The long s in a key: the bytes C5 BF count as the letter s, so a member whose key is
  \<open>response\<close> written with two long s is decoded into the field \<open>Response\<close>.
\<close>

lemma fold_key_long_s:
  "fold_key [CHR ''r'', CHR ''e'', CHR 0xC5, CHR 0xBF, CHR ''p'', CHR ''o'', CHR ''n'',
             CHR 0xC5, CHR 0xBF, CHR ''e''] = ''response''"
  by (simp add: fold_key.simps lower_def)

lemma example_deploy_url:
  "url_Parse example_lib (url_String example_lib (url_JoinPath example_lib
     (apiStudioV1 example_lib) [''workspaces/w/scenes/s1'' @ '':deploy''])) =
   Inr \<lparr>Scheme = ''https'', Host = ''api.inworld.ai'',
        Path = ''/studio/v1/workspaces/w/scenes/s1:deploy'', RawQuery = []\<rparr>"
  by code_simp

lemma example_operation_url:
  "url_Parse example_lib (url_String example_lib (url_JoinPath example_lib
     (apiStudioV1 example_lib) [''workspaces/w/scenes/s1/operations/op1''])) =
   Inr \<lparr>Scheme = ''https'', Host = ''api.inworld.ai'',
        Path = ''/studio/v1/workspaces/w/scenes/s1/operations/op1'', RawQuery = []\<rparr>"
  by code_simp

lemma example_scans:
  "json_scan example_lib body_pending = Inr (Marshal_DeploymentResponse handle_pending)"
  "json_scan example_lib body_done = Inr (Marshal_DeploymentResponse handle_done)"
  "json_scan example_lib body_checked = Inr (Marshal_CheckDeploymentStatusResponse handle_checked)"
  by code_simp+

text \<open>
  C7, as stated, fails: between the check of the identifier and the dispatch, the
  operations return the error of \<open>http.NewRequestWithContext\<close>, and then no request is
  issued. With a nil context a deploy of a non-empty identifier returns that error and
  the trace of I/O stays empty.
\<close>

theorem deploy_nil_context_counterexample:
  "''workspaces/w/scenes/s1'' \<noteq> [] \<and>
   DeployScene example_lib (example_Client [answer 200 body_pending]) NilContext
     ''workspaces/w/scenes/s1'' start =
     ((DeploymentResponse_zero, Some (WithStack (Foreign ''net/http: nil Context''))), start) \<and>
   sent (trace start) = []"
  by (simp add: DeployScene_def NewRequestWithContext_def errors_WithStack_def start_def)

lemma NewRequestWithContext_fails:
  "isl (NewRequestWithContext L ctx m url b) \<longleftrightarrow> ctx = NilContext \<or> isl (url_Parse L url)"
  by (simp add: NewRequestWithContext_def split: sum.splits)

lemma DeployScene_not_made:
  assumes "sceneID \<noteq> []"
      and "NewRequestWithContext L ctx http_MethodPost
             (url_String L (url_JoinPath L (apiStudioV1 L) [sceneID @ '':deploy''])) NoBody = Inl err"
  shows "DeployScene L c ctx sceneID s = ((DeploymentResponse_zero, Some (WithStack err)), s)"
  using assms by (simp add: DeployScene_def errors_WithStack_def)

lemma CheckDeploymentStatus_not_made:
  assumes "operationID \<noteq> []"
      and "NewRequestWithContext L ctx http_MethodGet
             (url_String L (url_JoinPath L (apiStudioV1 L) [operationID])) NoBody = Inl err"
  shows "CheckDeploymentStatus L c ctx operationID s =
           ((CheckDeploymentStatusResponse_zero, Some (WithStack err)), s)"
  using assms by (simp add: CheckDeploymentStatus_def errors_WithStack_def)

text \<open>
  C7, amended: take a resource identifier and an operation identifier that are not
  empty. When the request can be made (the context is not nil and \<open>url.Parse\<close> accepts
  the URL), each of the three deploy operations hands exactly one request to the
  transport: a \<open>POST\<close> with no body to the studio base path joined with the identifier
  followed by \<open>:deploy\<close>; \<open>CheckDeploymentStatus\<close> hands over exactly one \<open>GET\<close> with no
  body to the studio base path joined with the operation identifier. Both carry the
  studio headers. On a response with a success status whose body was read, the value
  returned is what the decoder of \<open>DeploymentResponse\<close>, respectively of
  \<open>CheckDeploymentStatusResponse\<close>, makes of the body. When \<open>http.NewRequestWithContext\<close>
  returns an error, which it does exactly when the context is nil or \<open>url.Parse\<close> refuses
  the URL, each of the four operations returns the zero value and that error under
  \<open>WithStack\<close>, and leaves the world and the trace of I/O as they were: no request is
  issued.
\<close>

theorem deploy_and_check_requests:
  assumes "resourceID \<noteq> []" and "operationID \<noteq> []"
  shows "let hdr = [''Authorization'' \<mapsto> [''Basic '' @ studioAPIKey c],
                    ''Grpc-Metadata-X-Authorization-Bearer-Type'' \<mapsto> [''studio_api'']];
             deploy_url = url_String L (url_JoinPath L (apiStudioV1 L) [resourceID @ '':deploy'']);
             check_url = url_String L (url_JoinPath L (apiStudioV1 L) [operationID])
         in
           (\<forall>ud. ctx \<noteq> NilContext \<and> url_Parse L deploy_url = Inr ud \<longrightarrow>
              (let post = \<lparr>Context = ctx, Method = ''POST'', URL = ud, Header = hdr,
                           Body = NoBody\<rparr>
               in
                 sent (trace (snd (DeployScene L c ctx resourceID s))) = sent (trace s) @ [post] \<and>
                 sent (trace (snd (DeployCharacter L c ctx resourceID s))) =
                   sent (trace s) @ [post] \<and>
                 sent (trace (snd (DeployCommonKnowledge L c ctx resourceID s))) =
                   sent (trace s) @ [post] \<and>
                 (\<forall>resp w b.
                    client c post (world s) = (Inr resp, w) \<and> ReadAll resp = (b, None) \<and>
                    200 \<le> StatusCode resp \<and> StatusCode resp < 400 \<longrightarrow>
                    fst (fst (DeployScene L c ctx resourceID s)) =
                      fst (Decode (T_DeploymentResponse L) b DeploymentResponse_zero) \<and>
                    fst (fst (DeployCharacter L c ctx resourceID s)) =
                      fst (Decode (T_DeploymentResponse L) b DeploymentResponse_zero) \<and>
                    fst (fst (DeployCommonKnowledge L c ctx resourceID s)) =
                      fst (Decode (T_DeploymentResponse L) b DeploymentResponse_zero)))) \<and>
           (\<forall>uc. ctx \<noteq> NilContext \<and> url_Parse L check_url = Inr uc \<longrightarrow>
              (let get = \<lparr>Context = ctx, Method = ''GET'', URL = uc, Header = hdr,
                          Body = NoBody\<rparr>
               in
                 sent (trace (snd (CheckDeploymentStatus L c ctx operationID s))) =
                   sent (trace s) @ [get] \<and>
                 (\<forall>resp w b.
                    client c get (world s) = (Inr resp, w) \<and> ReadAll resp = (b, None) \<and>
                    200 \<le> StatusCode resp \<and> StatusCode resp < 400 \<longrightarrow>
                    fst (fst (CheckDeploymentStatus L c ctx operationID s)) =
                      fst (Decode (T_CheckDeploymentStatusResponse L) b
                             CheckDeploymentStatusResponse_zero)))) \<and>
           (\<forall>err. NewRequestWithContext L ctx http_MethodPost deploy_url NoBody = Inl err \<longrightarrow>
              DeployScene L c ctx resourceID s =
                ((DeploymentResponse_zero, Some (WithStack err)), s) \<and>
              DeployCharacter L c ctx resourceID s =
                ((DeploymentResponse_zero, Some (WithStack err)), s) \<and>
              DeployCommonKnowledge L c ctx resourceID s =
                ((DeploymentResponse_zero, Some (WithStack err)), s)) \<and>
           (\<forall>err. NewRequestWithContext L ctx http_MethodGet check_url NoBody = Inl err \<longrightarrow>
              CheckDeploymentStatus L c ctx operationID s =
                ((CheckDeploymentStatusResponse_zero, Some (WithStack err)), s)) \<and>
           (isl (NewRequestWithContext L ctx http_MethodPost deploy_url NoBody) \<longleftrightarrow>
              ctx = NilContext \<or> isl (url_Parse L deploy_url)) \<and>
           (isl (NewRequestWithContext L ctx http_MethodGet check_url NoBody) \<longleftrightarrow>
              ctx = NilContext \<or> isl (url_Parse L check_url))"
proof -
  define hdr :: Header where
    "hdr = [''Authorization'' \<mapsto> [''Basic '' @ studioAPIKey c],
            ''Grpc-Metadata-X-Authorization-Bearer-Type'' \<mapsto> [''studio_api'']]"
  define deploy_url where
    "deploy_url = url_String L (url_JoinPath L (apiStudioV1 L) [resourceID @ '':deploy''])"
  define check_url where
    "check_url = url_String L (url_JoinPath L (apiStudioV1 L) [operationID])"
  have made_post:
    "sent (trace (snd (DeployScene L c ctx resourceID s))) = sent (trace s) @ [post] \<and>
     sent (trace (snd (DeployCharacter L c ctx resourceID s))) = sent (trace s) @ [post] \<and>
     sent (trace (snd (DeployCommonKnowledge L c ctx resourceID s))) = sent (trace s) @ [post] \<and>
     (\<forall>resp w b.
        client c post (world s) = (Inr resp, w) \<and> ReadAll resp = (b, None) \<and>
        200 \<le> StatusCode resp \<and> StatusCode resp < 400 \<longrightarrow>
        fst (fst (DeployScene L c ctx resourceID s)) =
          fst (Decode (T_DeploymentResponse L) b DeploymentResponse_zero) \<and>
        fst (fst (DeployCharacter L c ctx resourceID s)) =
          fst (Decode (T_DeploymentResponse L) b DeploymentResponse_zero) \<and>
        fst (fst (DeployCommonKnowledge L c ctx resourceID s)) =
          fst (Decode (T_DeploymentResponse L) b DeploymentResponse_zero))"
    if ok: "ctx \<noteq> NilContext \<and> url_Parse L deploy_url = Inr ud"
      and post: "post = \<lparr>Context = ctx, Method = ''POST'', URL = ud, Header = hdr, Body = NoBody\<rparr>"
    for ud post
  proof -
    have ds: "DeployScene L c ctx resourceID s = sendRequest L (T_DeploymentResponse L) c post s"
      unfolding post hdr_def
      using ok by (intro DeployScene_sends [OF assms(1)]) (simp_all add: deploy_url_def)
    have dc: "DeployCharacter L c ctx resourceID s = DeployScene L c ctx resourceID s"
      using assms(1) by (rule DeployCharacter_eq)
    have dk: "DeployCommonKnowledge L c ctx resourceID s = DeployScene L c ctx resourceID s"
      using assms(1) by (rule DeployCommonKnowledge_eq)
    have z: "zero (T_DeploymentResponse L) = DeploymentResponse_zero"
      by (simp add: T_DeploymentResponse_def)
    have dec: "fst (fst (sendRequest L (T_DeploymentResponse L) c post s)) =
                 fst (Decode (T_DeploymentResponse L) b DeploymentResponse_zero)"
      if "client c post (world s) = (Inr resp, w)" "ReadAll resp = (b, None)"
         "200 \<le> StatusCode resp \<and> StatusCode resp < 400" for resp w b
      using sendRequest_success_status [OF that, of L "T_DeploymentResponse L"]
      by (simp add: z)
    show ?thesis
      unfolding dc dk ds using dec by (simp add: sendRequest_sent)
  qed
  have made_get:
    "sent (trace (snd (CheckDeploymentStatus L c ctx operationID s))) = sent (trace s) @ [get] \<and>
     (\<forall>resp w b.
        client c get (world s) = (Inr resp, w) \<and> ReadAll resp = (b, None) \<and>
        200 \<le> StatusCode resp \<and> StatusCode resp < 400 \<longrightarrow>
        fst (fst (CheckDeploymentStatus L c ctx operationID s)) =
          fst (Decode (T_CheckDeploymentStatusResponse L) b CheckDeploymentStatusResponse_zero))"
    if ok: "ctx \<noteq> NilContext \<and> url_Parse L check_url = Inr uc"
      and get: "get = \<lparr>Context = ctx, Method = ''GET'', URL = uc, Header = hdr, Body = NoBody\<rparr>"
    for uc get
  proof -
    have cs: "CheckDeploymentStatus L c ctx operationID s =
                sendRequest L (T_CheckDeploymentStatusResponse L) c get s"
      unfolding get hdr_def
      using ok by (intro CheckDeploymentStatus_sends [OF assms(2)]) (simp_all add: check_url_def)
    have z: "zero (T_CheckDeploymentStatusResponse L) = CheckDeploymentStatusResponse_zero"
      by (simp add: T_CheckDeploymentStatusResponse_def)
    have dec: "fst (fst (sendRequest L (T_CheckDeploymentStatusResponse L) c get s)) =
                 fst (Decode (T_CheckDeploymentStatusResponse L) b CheckDeploymentStatusResponse_zero)"
      if "client c get (world s) = (Inr resp, w)" "ReadAll resp = (b, None)"
         "200 \<le> StatusCode resp \<and> StatusCode resp < 400" for resp w b
      using sendRequest_success_status [OF that, of L "T_CheckDeploymentStatusResponse L"]
      by (simp add: z)
    show ?thesis
      unfolding cs using dec by (simp add: sendRequest_sent)
  qed
  have not_post:
    "DeployScene L c ctx resourceID s = ((DeploymentResponse_zero, Some (WithStack err)), s) \<and>
     DeployCharacter L c ctx resourceID s = ((DeploymentResponse_zero, Some (WithStack err)), s) \<and>
     DeployCommonKnowledge L c ctx resourceID s =
       ((DeploymentResponse_zero, Some (WithStack err)), s)"
    if "NewRequestWithContext L ctx http_MethodPost deploy_url NoBody = Inl err" for err
    using that assms(1)
    by (simp add: DeployCharacter_eq DeployCommonKnowledge_eq DeployScene_not_made deploy_url_def)
  have not_get:
    "CheckDeploymentStatus L c ctx operationID s =
       ((CheckDeploymentStatusResponse_zero, Some (WithStack err)), s)"
    if "NewRequestWithContext L ctx http_MethodGet check_url NoBody = Inl err" for err
    using that assms(2) by (simp add: CheckDeploymentStatus_not_made check_url_def)
  show ?thesis
    unfolding Let_def hdr_def [symmetric] deploy_url_def [symmetric] check_url_def [symmetric]
  proof (intro conjI allI impI)
    show "isl (NewRequestWithContext L ctx http_MethodPost deploy_url NoBody) \<longleftrightarrow>
            ctx = NilContext \<or> isl (url_Parse L deploy_url)"
      by (rule NewRequestWithContext_fails)
    show "isl (NewRequestWithContext L ctx http_MethodGet check_url NoBody) \<longleftrightarrow>
            ctx = NilContext \<or> isl (url_Parse L check_url)"
      by (rule NewRequestWithContext_fails)
  qed (use made_post [OF _ refl] made_get [OF _ refl] not_post not_get in simp_all)
qed

theorem deploy_and_check_requests_witness:
  "map (\<lambda>r. (Method r, Path (URL r), Body r))
     (sent (trace (snd (DeployScene example_lib (example_Client [answer 200 body_pending])
                          Background ''workspaces/w/scenes/s1'' start)))) =
     [(''POST'', ''/studio/v1/workspaces/w/scenes/s1:deploy'', NoBody)] \<and>
   map (\<lambda>r. (Method r, Path (URL r), Body r))
     (sent (trace (snd (CheckDeploymentStatus example_lib (example_Client [answer 200 body_pending])
                          Background ''workspaces/w/scenes/s1/operations/op1'' start)))) =
     [(''GET'', ''/studio/v1/workspaces/w/scenes/s1/operations/op1'', NoBody)] \<and>
   fst (fst (DeployScene example_lib (example_Client [answer 200 body_pending])
               Background ''workspaces/w/scenes/s1'' start)) = handle_pending \<and>
   DeployCharacter example_lib (example_Client [answer 200 body_pending]) NilContext
     ''workspaces/w/scenes/s1'' start =
     ((DeploymentResponse_zero, Some (WithStack (Foreign ''net/http: nil Context''))), start) \<and>
   CheckDeploymentStatus example_lib (example_Client [answer 200 body_pending]) NilContext
     ''workspaces/w/scenes/s1/operations/op1'' start =
     ((CheckDeploymentStatusResponse_zero, Some (WithStack (Foreign ''net/http: nil Context''))),
      start) \<and>
   DeployCommonKnowledge
     (example_lib\<lparr>url_Parse := (\<lambda>x. Inl (Foreign ''parse: invalid URL''))\<rparr>)
     (example_Client [answer 200 body_pending]) Background ''workspaces/w/common-knowledge/k1''
     start =
     ((DeploymentResponse_zero, Some (WithStack (Foreign ''parse: invalid URL''))), start)"
proof -
  have t: "trace start = []"
    by (simp add: start_def)
  have dec: "fst (Decode (T_DeploymentResponse example_lib) body_pending
                    DeploymentResponse_zero) = handle_pending"
    by (simp add: T_DeploymentResponse_def json_Decode_def example_scans
        Unmarshal_Marshal_DeploymentResponse)
  have nil: "NewRequestWithContext example_lib NilContext m url b =
               Inl (Foreign ''net/http: nil Context'')" for m url b
    by (simp add: NewRequestWithContext_def)
  have made:
    "map (\<lambda>r. (Method r, Path (URL r), Body r))
       (sent (trace (snd (DeployScene example_lib (example_Client [answer 200 body_pending])
                            Background ''workspaces/w/scenes/s1'' start)))) =
       [(''POST'', ''/studio/v1/workspaces/w/scenes/s1:deploy'', NoBody)] \<and>
     map (\<lambda>r. (Method r, Path (URL r), Body r))
       (sent (trace (snd (CheckDeploymentStatus example_lib
                            (example_Client [answer 200 body_pending])
                            Background ''workspaces/w/scenes/s1/operations/op1'' start)))) =
       [(''GET'', ''/studio/v1/workspaces/w/scenes/s1/operations/op1'', NoBody)] \<and>
     fst (fst (DeployScene example_lib (example_Client [answer 200 body_pending])
                 Background ''workspaces/w/scenes/s1'' start)) = handle_pending"
    using deploy_and_check_requests
      [where resourceID = "''workspaces/w/scenes/s1''"
         and operationID = "''workspaces/w/scenes/s1/operations/op1''"
         and L = example_lib and ctx = Background
         and c = "example_Client [answer 200 body_pending]" and s = start]
    by (simp add: Let_def t example_do answer_def dec example_deploy_url [simplified]
        example_operation_url)
  have not_made:
    "DeployCharacter example_lib (example_Client [answer 200 body_pending]) NilContext
       ''workspaces/w/scenes/s1'' start =
       ((DeploymentResponse_zero, Some (WithStack (Foreign ''net/http: nil Context''))), start) \<and>
     CheckDeploymentStatus example_lib (example_Client [answer 200 body_pending]) NilContext
       ''workspaces/w/scenes/s1/operations/op1'' start =
       ((CheckDeploymentStatusResponse_zero,
         Some (WithStack (Foreign ''net/http: nil Context''))), start)"
    using deploy_and_check_requests
      [where resourceID = "''workspaces/w/scenes/s1''"
         and operationID = "''workspaces/w/scenes/s1/operations/op1''"
         and L = example_lib and ctx = NilContext
         and c = "example_Client [answer 200 body_pending]" and s = start]
    by (simp add: Let_def nil)
  have refused:
    "DeployCommonKnowledge
       (example_lib\<lparr>url_Parse := (\<lambda>x. Inl (Foreign ''parse: invalid URL''))\<rparr>)
       (example_Client [answer 200 body_pending]) Background ''workspaces/w/common-knowledge/k1''
       start =
       ((DeploymentResponse_zero, Some (WithStack (Foreign ''parse: invalid URL''))), start)"
    using deploy_and_check_requests
      [where resourceID = "''workspaces/w/common-knowledge/k1''"
         and operationID = "''workspaces/w/scenes/s1/operations/op1''"
         and L = "example_lib\<lparr>url_Parse := (\<lambda>x. Inl (Foreign ''parse: invalid URL''))\<rparr>"
         and ctx = Background
         and c = "example_Client [answer 200 body_pending]" and s = start]
    by (simp add: Let_def NewRequestWithContext_def)
  from made not_made refused show ?thesis
    by simp
qed

text \<open>
  C4, as stated, fails: a deploy call succeeds with \<open>done\<close> true when the remote service
  answers so.
\<close>

theorem deploy_done_counterexample:
  "snd (fst (DeployScene example_lib (example_Client [answer 200 body_done]) Background
               ''workspaces/w/scenes/s1'' start)) = None \<and>
   DeploymentResponse.Done
     (fst (fst (DeployScene example_lib (example_Client [answer 200 body_done]) Background
                  ''workspaces/w/scenes/s1'' start)))"
  by code_simp

text \<open>
  C4, amended: a deploy call that gets a response with a success status, whose body is
  read and closed without error and holds the JSON document of a handle \<open>h\<close>, returns
  exactly \<open>h\<close> and no error; its \<open>done\<close> is the one the remote service sent, false or
  true. The client does not check it.
\<close>

theorem deploy_returns_reported_handle:
  assumes "resourceID \<noteq> []" and "ctx \<noteq> NilContext"
      and parse: "url_Parse L (url_String L (url_JoinPath L (apiStudioV1 L)
                    [resourceID @ '':deploy''])) = Inr u"
      and do: "client c
                 \<lparr>Context = ctx, Method = ''POST'', URL = u,
                  Header = [''Authorization'' \<mapsto> [''Basic '' @ studioAPIKey c],
                    ''Grpc-Metadata-X-Authorization-Bearer-Type'' \<mapsto> [''studio_api'']],
                  Body = NoBody\<rparr> (world s) = (Inr resp, w)"
      and st: "200 \<le> StatusCode resp \<and> StatusCode resp < 400"
      and rd: "ReadAll resp = (b, None)"
      and cl: "Close resp = None"
      and scan: "json_scan L b = Inr (Marshal_DeploymentResponse h)"
  shows "fst (DeployScene L c ctx resourceID s) = (h, None) \<and>
         fst (DeployCharacter L c ctx resourceID s) = (h, None) \<and>
         fst (DeployCommonKnowledge L c ctx resourceID s) = (h, None) \<and>
         DeploymentResponse.Done (fst (fst (DeployScene L c ctx resourceID s))) =
           DeploymentResponse.Done h"
proof -
  have dec: "Decode (T_DeploymentResponse L) b (zero (T_DeploymentResponse L)) = (h, None)"
    using scan by (simp add: T_DeploymentResponse_def json_Decode_def
        Unmarshal_Marshal_DeploymentResponse)
  have "fst (DeployScene L c ctx resourceID s) = (h, None)"
    unfolding DeployScene_sends [OF assms(1) assms(2) parse]
    using do rd st cl dec by (rule sendRequest_success)
  then show ?thesis
    using assms(1) by (simp add: DeployCharacter_eq DeployCommonKnowledge_eq)
qed

theorem deploy_returns_reported_handle_witness:
  "fst (DeployScene example_lib (example_Client [answer 200 body_pending]) Background
          ''workspaces/w/scenes/s1'' start) = (handle_pending, None) \<and>
   \<not> DeploymentResponse.Done
       (fst (fst (DeployScene example_lib (example_Client [answer 200 body_pending]) Background
                    ''workspaces/w/scenes/s1'' start)))"
proof -
  have d: "\<not> DeploymentResponse.Done handle_pending"
    by (simp add: handle_pending_def)
  show ?thesis
    using deploy_returns_reported_handle
      [OF _ _ example_deploy_url, where ctx = Background
         and c = "example_Client [answer 200 body_pending]" and s = start
         and resp = "\<lparr>StatusCode = 200, ReadAll = (body_pending, None), Close = None\<rparr>"
         and w = "Suc 0" and b = body_pending and h = handle_pending]
    by (simp add: example_do answer_def example_scans d)
qed

text \<open>
  C9, as stated, fails: \<open>CheckDeploymentStatus\<close> keeps no state, and when the remote
  service reports \<open>done\<close> true to one poll and false to the next, so do the two polls.
\<close>

theorem terminal_stability_counterexample:
  "snd (fst first_poll) = None \<and> CheckDeploymentStatusResponse.Done (fst (fst first_poll)) \<and>
   snd (fst second_poll) = None \<and> \<not> CheckDeploymentStatusResponse.Done (fst (fst second_poll))"
  by code_simp

text \<open>
  C9, amended: \<open>CheckDeploymentStatus\<close> keeps no state, and each poll reports the state
  that the remote service sends in answer to it. Take two successive polls of an
  operation, each answered with a success status and a body that is read and closed
  without error and holds the document of the operation, with or without the member
  \<open>response\<close>. When the answer to the first says \<open>done\<close> true, the first poll reports
  \<open>done\<close> true, and the second poll returns exactly the handle of the answer to the
  second: it reports \<open>done\<close> true if the service still says so and \<open>done\<close> false if the
  service now says so.
\<close>

theorem poll_reports_current_state:
  assumes "operationID \<noteq> []" and "ctx \<noteq> NilContext"
      and parse: "url_Parse L (url_String L (url_JoinPath L (apiStudioV1 L) [operationID])) = Inr u"
      and get: "get = \<lparr>Context = ctx, Method = ''GET'', URL = u,
                  Header = [''Authorization'' \<mapsto> [''Basic '' @ studioAPIKey c],
                    ''Grpc-Metadata-X-Authorization-Bearer-Type'' \<mapsto> [''studio_api'']],
                  Body = NoBody\<rparr>"
      and do1: "client c get (world s0) = (Inr resp1, w1)"
      and st1: "200 \<le> StatusCode resp1 \<and> StatusCode resp1 < 400"
      and rd1: "ReadAll resp1 = (b1, None)"
      and cl1: "Close resp1 = None"
      and scan1: "json_scan L b1 = Inr (operation_document n1 m1 True r1)"
      and do2: "client c get w1 = (Inr resp2, w2)"
      and st2: "200 \<le> StatusCode resp2 \<and> StatusCode resp2 < 400"
      and rd2: "ReadAll resp2 = (b2, None)"
      and cl2: "Close resp2 = None"
      and scan2: "json_scan L b2 = Inr (operation_document n2 m2 d2 r2)"
  shows "snd (fst (CheckDeploymentStatus L c ctx operationID s0)) = None \<and>
         CheckDeploymentStatusResponse.Done
           (fst (fst (CheckDeploymentStatus L c ctx operationID s0))) \<and>
         fst (CheckDeploymentStatus L c ctx operationID
                (snd (CheckDeploymentStatus L c ctx operationID s0))) =
           (\<lparr>CheckDeploymentStatusResponse.Name = n2,
             CheckDeploymentStatusResponse.Metadata = m2,
             CheckDeploymentStatusResponse.Done = d2,
             CheckDeploymentStatusResponse.Response =
               (case r2 of None \<Rightarrow> Typed_zero | Some t \<Rightarrow> t)\<rparr>, None) \<and>
         (CheckDeploymentStatusResponse.Done
            (fst (fst (CheckDeploymentStatus L c ctx operationID
                         (snd (CheckDeploymentStatus L c ctx operationID s0))))) \<longleftrightarrow> d2)"
proof -
  have sends: "CheckDeploymentStatus L c ctx operationID s =
                 sendRequest L (T_CheckDeploymentStatusResponse L) c get s" for s
    unfolding get by (rule CheckDeploymentStatus_sends [OF assms(1) assms(2) parse])
  have dec: "Decode (T_CheckDeploymentStatusResponse L) b
               (zero (T_CheckDeploymentStatusResponse L)) =
             (\<lparr>CheckDeploymentStatusResponse.Name = n,
               CheckDeploymentStatusResponse.Metadata = m,
               CheckDeploymentStatusResponse.Done = d,
               CheckDeploymentStatusResponse.Response =
                 (case ro of None \<Rightarrow> Typed_zero | Some t \<Rightarrow> t)\<rparr>, None)"
    if "json_scan L b = Inr (operation_document n m d ro)" for b n m d ro
    using that
    by (simp add: T_CheckDeploymentStatusResponse_def json_Decode_def
        Unmarshal_operation_document CheckDeploymentStatusResponse_zero_def
        split: option.splits)
  have first: "fst (CheckDeploymentStatus L c ctx operationID s0) =
                 (\<lparr>CheckDeploymentStatusResponse.Name = n1,
                   CheckDeploymentStatusResponse.Metadata = m1,
                   CheckDeploymentStatusResponse.Done = True,
                   CheckDeploymentStatusResponse.Response =
                     (case r1 of None \<Rightarrow> Typed_zero | Some t \<Rightarrow> t)\<rparr>, None)"
    unfolding sends using do1 rd1 st1 cl1 dec [OF scan1] by (rule sendRequest_success)
  have w: "world (snd (CheckDeploymentStatus L c ctx operationID s0)) = w1"
    unfolding sends by (simp add: sendRequest_Inr [OF do1])
  have do2': "client c get (world (snd (CheckDeploymentStatus L c ctx operationID s0))) =
                (Inr resp2, w2)"
    using do2 by (simp add: w)
  have second: "fst (CheckDeploymentStatus L c ctx operationID
                       (snd (CheckDeploymentStatus L c ctx operationID s0))) =
                  (\<lparr>CheckDeploymentStatusResponse.Name = n2,
                    CheckDeploymentStatusResponse.Metadata = m2,
                    CheckDeploymentStatusResponse.Done = d2,
                    CheckDeploymentStatusResponse.Response =
                      (case r2 of None \<Rightarrow> Typed_zero | Some t \<Rightarrow> t)\<rparr>, None)"
    unfolding sends
    using do2' [unfolded sends] rd2 st2 cl2 dec [OF scan2] by (rule sendRequest_success)
  from first second show ?thesis
    by simp
qed

theorem poll_reports_current_state_witness:
  "CheckDeploymentStatusResponse.Done (fst (fst first_poll)) \<and>
   fst second_poll =
     (\<lparr>CheckDeploymentStatusResponse.Name = ''workspaces/w/scenes/s1/operations/op1'',
       CheckDeploymentStatusResponse.Metadata = \<lparr>Type = ''t''\<rparr>,
       CheckDeploymentStatusResponse.Done = False,
       CheckDeploymentStatusResponse.Response = Typed_zero\<rparr>, None) \<and>
   CheckDeploymentStatusResponse.Done (fst (fst steady_first_poll)) \<and>
   fst (CheckDeploymentStatus example_lib steady_service Background
          ''workspaces/w/scenes/s1/operations/op1'' (snd steady_first_poll)) =
     (handle_checked, None)"
proof -
  have scan_done: "json_scan example_lib body_done =
                     Inr (operation_document ''workspaces/w/scenes/s1/operations/op1''
                            \<lparr>Type = ''t''\<rparr> True None)"
    by code_simp
  have scan_pending: "json_scan example_lib body_pending =
                        Inr (operation_document ''workspaces/w/scenes/s1/operations/op1''
                               \<lparr>Type = ''t''\<rparr> False None)"
    by code_simp
  have scan_checked: "json_scan example_lib body_checked =
                        Inr (operation_document ''workspaces/w/scenes/s1/operations/op1''
                               \<lparr>Type = ''t''\<rparr> True (Some \<lparr>Type = ''r''\<rparr>))"
    by code_simp
  have f1: "client flipping_service r (world start) =
              (Inr \<lparr>StatusCode = 200, ReadAll = (body_done, None), Close = None\<rparr>, Suc 0)" for r
    by (simp add: flipping_service_def example_do answer_def)
  have f2: "client flipping_service r (Suc 0) =
              (Inr \<lparr>StatusCode = 200, ReadAll = (body_pending, None), Close = None\<rparr>, Suc (Suc 0))"
    for r
    by (simp add: flipping_service_def example_Client_def NewClient_def scripted_def answer_def)
  have s1: "client steady_service r (world start) =
              (Inr \<lparr>StatusCode = 200, ReadAll = (body_checked, None), Close = None\<rparr>, Suc 0)" for r
    by (simp add: steady_service_def example_do answer_def)
  have s2: "client steady_service r (Suc 0) =
              (Inr \<lparr>StatusCode = 200, ReadAll = (body_checked, None), Close = None\<rparr>, Suc (Suc 0))"
    for r
    by (simp add: steady_service_def example_Client_def NewClient_def scripted_def answer_def)
  have flipping:
    "CheckDeploymentStatusResponse.Done (fst (fst first_poll)) \<and>
     fst second_poll =
       (\<lparr>CheckDeploymentStatusResponse.Name = ''workspaces/w/scenes/s1/operations/op1'',
         CheckDeploymentStatusResponse.Metadata = \<lparr>Type = ''t''\<rparr>,
         CheckDeploymentStatusResponse.Done = False,
         CheckDeploymentStatusResponse.Response = Typed_zero\<rparr>, None)"
    using poll_reports_current_state
      [OF _ _ example_operation_url refl f1 _ _ _ scan_done f2 _ _ _ scan_pending,
       where ctx = Background]
    by (simp add: first_poll_def second_poll_def)
  have steady:
    "CheckDeploymentStatusResponse.Done (fst (fst steady_first_poll)) \<and>
     fst (CheckDeploymentStatus example_lib steady_service Background
            ''workspaces/w/scenes/s1/operations/op1'' (snd steady_first_poll)) =
       (handle_checked, None)"
    using poll_reports_current_state
      [OF _ _ example_operation_url refl s1 _ _ _ scan_checked s2 _ _ _ scan_checked,
       where ctx = Background]
    by (simp add: steady_first_poll_def handle_checked_def)
  from flipping steady show ?thesis
    by simp
qed

subsection \<open>Required identifiers\<close>

lemma GetScenes_requires_WorkspaceID:
  "GetScenesRequest.WorkspaceID req = [] \<Longrightarrow>
   GetScenes L T c ctx req s = ((zero T, Some (New ''workspace id is required'')), s)"
  by (simp add: GetScenes_def)

lemma required_identifiers_checked:
  "DeployScene L c ctx [] s = ((DeploymentResponse_zero, Some (New ''scene id is required'')), s)"
  "DeployCharacter L c ctx [] s =
     ((DeploymentResponse_zero, Some (StdNew ''character name is required'')), s)"
  "DeployCommonKnowledge L c ctx [] s =
     ((DeploymentResponse_zero, Some (New ''common knowledge id is required'')), s)"
  "CheckDeploymentStatus L c ctx [] s =
     ((CheckDeploymentStatusResponse_zero, Some (New ''operation id cannot be empty'')), s)"
  by (simp_all add: DeployScene_def DeployCharacter_def DeployCommonKnowledge_def
      CheckDeploymentStatus_def)

lemma studio_sends_one:
  assumes "\<exists>r. N = Inr r"
  shows "length (sent (trace (snd (case N of
                                     Inl err \<Rightarrow> (f err, s)
                                   | Inr r \<Rightarrow> sendStudioAPIRequest L T c r s)))) =
           Suc (length (sent (trace s)))"
  using assms by (auto simp: sendStudioAPIRequest_def sendRequest_sent Let_def)

text \<open>
  C2: the operations check their required identifier before any network activity
  (\<open>required_identifiers_checked\<close>, \<open>GetScenes_requires_WorkspaceID\<close>), but \<open>GetCharacters\<close>
  does not: with an empty \<open>WorkspaceID\<close>, a context that is not nil and a URL parser
  that accepts its input, it hands one request to the transport.
\<close>

theorem GetCharacters_empty_WorkspaceID_sends:
  assumes "GetCharactersRequest.WorkspaceID req = []" and "ctx \<noteq> NilContext"
      and "\<forall>x. \<not> isl (url_Parse L x)"
  shows "length (sent (trace (snd (GetCharacters L T c ctx req s)))) =
           Suc (length (sent (trace s)))"
proof -
  have "\<exists>u. url_Parse L x = Inr u" for x
    using assms(3) by (cases "url_Parse L x") (auto dest: spec [of _ x])
  then have ex: "\<exists>r. NewRequestWithContext L ctx m x b = Inr r" for m x b
    using assms(2) NewRequestWithContext_Inr [of ctx L x _ m b] by blast
  show ?thesis
    unfolding GetCharacters_def Let_def by (rule studio_sends_one) (rule ex)
qed

theorem GetCharacters_empty_WorkspaceID_sends_witness:
  "map (\<lambda>r. (Method r, Path (URL r)))
     (sent (trace (snd (GetCharacters example_lib (T_DeploymentResponse example_lib)
                          (example_Client [answer 200 body_pending]) Background
                          \<lparr>GetCharactersRequest.WorkspaceID = [], PageSize = 0, PageToken = [],
                           View = [], Filter = []\<rparr>
                          start)))) =
     [(''GET'', ''/studio/v1/workspaces/characters'')] \<and>
   length (sent (trace (snd (GetCharacters example_lib (T_DeploymentResponse example_lib)
                          (example_Client [answer 200 body_pending]) Background
                          \<lparr>GetCharactersRequest.WorkspaceID = [], PageSize = 0, PageToken = [],
                           View = [], Filter = []\<rparr>
                          start)))) = 1"
proof -
  have trace_start: "trace start = []"
    by (simp add: start_def)
  have p: "\<forall>x. \<not> isl (url_Parse example_lib x)"
    by (simp add: example_lib_def example_Parse_def Let_def)
  have m: "map (\<lambda>r. (Method r, Path (URL r)))
     (sent (trace (snd (GetCharacters example_lib (T_DeploymentResponse example_lib)
                          (example_Client [answer 200 body_pending]) Background
                          \<lparr>GetCharactersRequest.WorkspaceID = [], PageSize = 0, PageToken = [],
                           View = [], Filter = []\<rparr>
                          start)))) =
     [(''GET'', ''/studio/v1/workspaces/characters'')]"
    by code_simp
  show ?thesis
    using GetCharacters_empty_WorkspaceID_sends
      [OF _ _ p, where ctx = Background and s = start
         and req = "\<lparr>GetCharactersRequest.WorkspaceID = [], PageSize = 0, PageToken = [],
                     View = [], Filter = []\<rparr>"
         and T = "T_DeploymentResponse example_lib"
         and c = "example_Client [answer 200 body_pending]"]
    by (simp add: m trace_start)
qed

subsection \<open>The session API\<close>

lemma check_Parameters_invalid:
  "\<exists>p \<in> set ps. Parameter.Name p = [] \<or> Value p = [] \<Longrightarrow>
   check_Parameters ps = Some (New ''parameter name is required'') \<or>
   check_Parameters ps = Some (New ''parameter value is required'')"
  by (induction ps) auto

lemma check_Parameters_valid:
  "check_Parameters ps = None \<longleftrightarrow> (\<forall>p \<in> set ps. Parameter.Name p \<noteq> [] \<and> Value p \<noteq> [])"
  by (induction ps) auto

text \<open>
  C10: \<open>SendTrigger\<close> checks the session id, the session character, the trigger and
  every element of \<open>TriggerEvent.Parameters\<close> before any network activity: if one of
  the three is empty, or some parameter has an empty name or an empty value, it returns
  the zero value and an error made by \<open>errors.New\<close>, and the world and the trace of
  I/O are unchanged, so no network call is made.
\<close>

theorem SendTrigger_validates:
  assumes "SendTriggerRequest.SessionID req = [] \<or>
           SendTriggerRequest.SessionCharacter req = [] \<or>
           Trigger (TriggerEvent req) = [] \<or>
           (\<exists>p \<in> set (Parameters (TriggerEvent req)). Parameter.Name p = [] \<or> Value p = [])"
  shows "\<exists>msg \<in> {''session id is required'', ''session character is required'',
                   ''trigger is required'', ''parameter name is required'',
                   ''parameter value is required''}.
           SendTrigger L T c ctx req s = ((zero T, Some (New msg)), s)"
proof (cases "\<exists>p \<in> set (Parameters (TriggerEvent req)). Parameter.Name p = [] \<or> Value p = []")
  case True
  from check_Parameters_invalid [OF this] show ?thesis
    by (auto simp: SendTrigger_def)
next
  case False
  with assms show ?thesis
    by (auto simp: SendTrigger_def)
qed

theorem SendTrigger_validates_witness:
  "SendTrigger example_lib (T_DeploymentResponse example_lib) (example_Client []) Background
     \<lparr>SendTriggerRequest.SessionID = ''s1'', SendTriggerRequest.SessionCharacter = ''c1'',
      TriggerEvent =
        \<lparr>Trigger = ''t'',
         Parameters = [\<lparr>Parameter.Name = ''k'', Value = ''x''\<rparr>,
                       \<lparr>Parameter.Name = ''k2'', Value = []\<rparr>]\<rparr>,
      EndUserID = []\<rparr> start =
   ((DeploymentResponse_zero, Some (New ''parameter value is required'')), start)"
  using SendTrigger_validates
    [where req = "\<lparr>SendTriggerRequest.SessionID = ''s1'',
          SendTriggerRequest.SessionCharacter = ''c1'',
          TriggerEvent =
            \<lparr>Trigger = ''t'',
             Parameters = [\<lparr>Parameter.Name = ''k'', Value = ''x''\<rparr>,
                           \<lparr>Parameter.Name = ''k2'', Value = []\<rparr>]\<rparr>,
          EndUserID = []\<rparr>"
       and L = example_lib and T = "T_DeploymentResponse example_lib"
       and c = "example_Client []" and ctx = Background and s = start]
  by (simp add: SendTrigger_def T_DeploymentResponse_def)

subsection \<open>Round trip through the request serializer and the response decoder\<close>






end
